theory Spec2Isabelle
  imports Complex_Main "HOL-Library.Word" "HOL-Library.Log_Nat" "HOL-Library.AList"
begin

unbundle bit_operations_syntax

section \<open>Python values\<close>

text \<open>
  A Python \<open>float\<close> is an IEEE-754 binary64 value. A finite one is the rational it
  denotes; the negative zero, the two infinities and the NaN are values of their own.
\<close>

datatype pyfloat = Fin rat | NegZero | PInf | NInf | NaN

datatype pyval = PFloat pyfloat | PInt int | PStr string | PBool bool

datatype exn =
    IndexError | ZeroDivisionError | TypeError | ValueError | OverflowError
  | ConnectionError | FileNotFoundError | CallbackError | ClientError | StructError
  | HTTPException nat

text \<open>
  A \<open>dict\<close> keeps its keys in insertion order: an association list whose keys are
  distinct. \<open>d[k] = v\<close> replaces the value of a key in place and appends a new key
  (\<open>AList.update\<close>); \<open>d.update(e)\<close> does so for every item of \<open>e\<close> in order.
\<close>

type_synonym 'v pydict = "(string \<times> 'v) list"

definition dict_get :: "'v pydict \<Rightarrow> string \<Rightarrow> 'v option" where
  "dict_get d k = map_of d k"

definition dict_set :: "string \<Rightarrow> 'v \<Rightarrow> 'v pydict \<Rightarrow> 'v pydict" where
  "dict_set k v d = AList.update k v d"

definition dict_update :: "'v pydict \<Rightarrow> 'v pydict \<Rightarrow> 'v pydict" where
  "dict_update d e = fold (\<lambda>(k, v). dict_set k v) e d"

definition py_index :: "'a list \<Rightarrow> nat \<Rightarrow> exn + 'a" where
  "py_index xs i = (if i < length xs then Inr (xs ! i) else Inl IndexError)"

definition py_mod :: "nat \<Rightarrow> nat \<Rightarrow> exn + nat" where
  "py_mod a b = (if b = 0 then Inl ZeroDivisionError else Inr (a mod b))"

section \<open>IEEE-754 binary64 arithmetic\<close>

text \<open>
  \<open>pow2 e\<close> is \<open>2\<close> to the power \<open>e\<close>; \<open>ilog2 a\<close> is the exponent of a positive
  rational, \<open>\<lfloor>log\<^sub>2 a\<rfloor>\<close>, found from the bit lengths of numerator and denominator.
\<close>

definition pow2 :: "int \<Rightarrow> rat" where
  "pow2 e = (if 0 \<le> e then 2 ^ nat e else 1 / 2 ^ nat (- e))"

definition ilog2 :: "rat \<Rightarrow> int" where
  "ilog2 a =
     (let (n, d) = quotient_of a;
          k = bitlen n - bitlen d
      in if pow2 k \<le> a then k else k - 1)"

definition round_half_even :: "rat \<Rightarrow> int" where
  "round_half_even x =
     (let f = \<lfloor>x\<rfloor>; d = x - of_int f
      in if d < 1 / 2 then f else if 1 / 2 < d then f + 1 else if even f then f else f + 1)"

definition round_double :: "rat \<Rightarrow> pyfloat" where
  "round_double q =
     (if q = 0 then Fin 0
      else
        let a = \<bar>q\<bar>;
            e = max (ilog2 a) (- 1022);
            ulp = pow2 (e - 52);
            m = of_int (round_half_even (a / ulp)) * ulp
        in if pow2 1024 \<le> m then (if q < 0 then NInf else PInf)
           else if m = 0 then (if q < 0 then NegZero else Fin 0)
           else Fin (if q < 0 then - m else m))"

text \<open>
  The operations of \<open>float\<close>: the exact result, rounded to binary64
  (\<open>round_double\<close>: nearest, ties to even, with subnormals and overflow to infinity).
\<close>

fun fval :: "pyfloat \<Rightarrow> rat" where
  "fval (Fin q) = q"
| "fval _ = 0"

fun is_finite :: "pyfloat \<Rightarrow> bool" where
  "is_finite (Fin q) = True"
| "is_finite NegZero = True"
| "is_finite _ = False"

fun is_neg :: "pyfloat \<Rightarrow> bool" where
  "is_neg (Fin q) = (q < 0)"
| "is_neg NegZero = True"
| "is_neg NInf = True"
| "is_neg _ = False"

fun is_zero :: "pyfloat \<Rightarrow> bool" where
  "is_zero (Fin q) = (q = 0)"
| "is_zero NegZero = True"
| "is_zero _ = False"

fun fneg :: "pyfloat \<Rightarrow> pyfloat" where
  "fneg (Fin q) = (if q = 0 then NegZero else Fin (- q))"
| "fneg NegZero = Fin 0"
| "fneg PInf = NInf"
| "fneg NInf = PInf"
| "fneg NaN = NaN"

definition fadd :: "pyfloat \<Rightarrow> pyfloat \<Rightarrow> pyfloat" where
  "fadd x y =
     (if x = NaN \<or> y = NaN then NaN
      else if is_finite x \<and> is_finite y then
        (if x = NegZero \<and> y = NegZero then NegZero else round_double (fval x + fval y))
      else if is_finite x then y
      else if is_finite y then x
      else if x = y then x else NaN)"

definition fsub :: "pyfloat \<Rightarrow> pyfloat \<Rightarrow> pyfloat" where
  "fsub x y = fadd x (fneg y)"

definition fmul :: "pyfloat \<Rightarrow> pyfloat \<Rightarrow> pyfloat" where
  "fmul x y =
     (if x = NaN \<or> y = NaN then NaN
      else if is_finite x \<and> is_finite y then
        (if is_zero x \<or> is_zero y then (if is_neg x \<noteq> is_neg y then NegZero else Fin 0)
         else round_double (fval x * fval y))
      else if is_zero x \<or> is_zero y then NaN
      else if is_neg x \<noteq> is_neg y then NInf else PInf)"

definition flt :: "pyfloat \<Rightarrow> pyfloat \<Rightarrow> bool" where
  "flt x y =
     (if x = NaN \<or> y = NaN then False
      else if is_finite x \<and> is_finite y then fval x < fval y
      else if is_finite x then y = PInf
      else if is_finite y then x = NInf
      else x = NInf \<and> y = PInf)"

definition fgt :: "pyfloat \<Rightarrow> pyfloat \<Rightarrow> bool" where
  "fgt x y = flt y x"

definition float_of_int :: "int \<Rightarrow> pyfloat" where
  "float_of_int i = round_double (of_int i)"

definition py_int :: "pyfloat \<Rightarrow> exn + int" where
  "py_int x =
     (case x of
        Fin q \<Rightarrow> Inr (if 0 \<le> q then \<lfloor>q\<rfloor> else \<lceil>q\<rceil>)
      | NegZero \<Rightarrow> Inr 0
      | NaN \<Rightarrow> Inl ValueError
      | _ \<Rightarrow> Inl OverflowError)"

definition float_lit :: "rat \<Rightarrow> pyfloat" where
  "float_lit q = round_double q"

section \<open>app/main.py: run\_prediction\<close>

text \<open>
  \<open>run_prediction\<close>. \<open>equipment_db\<close> is the list of known equipment ids; \<open>model\<close> is
  \<open>None\<close> when \<open>./models/predictive_model.pkl\<close> does not exist, and otherwise the
  function \<open>float(model.predict_proba([features])[0][1])\<close>, which may raise. The
  readings are floats (\<open>Dict[str, float]\<close>); a default of \<open>readings.get\<close> is an
  \<open>int\<close>, which compares and multiplies as the float of the same value.
\<close>

record prediction =
  failure_probability :: pyfloat
  remaining_useful_life_days :: int
  recommended_action :: string
  confidence :: pyfloat

record prediction_response =
  resp_equipment_id :: string
  resp_prediction :: prediction
  resp_note :: "string option"

definition readings_get :: "pyfloat pydict \<Rightarrow> string \<Rightarrow> int \<Rightarrow> pyfloat" where
  "readings_get readings k dflt = (case dict_get readings k of Some v \<Rightarrow> v | None \<Rightarrow> float_of_int dflt)"

definition rule_based_probability :: "pyfloat \<Rightarrow> pyfloat \<Rightarrow> pyfloat" where
  "rule_based_probability temperature vibration =
     (let failure_probability = float_lit 0;
          failure_probability =
            (if fgt temperature (float_of_int 85)
             then fadd failure_probability (float_lit (4 / 10)) else failure_probability);
          failure_probability =
            (if fgt vibration (float_of_int 5)
             then fadd failure_probability (float_lit (4 / 10)) else failure_probability)
      in failure_probability)"

definition remaining_days_of :: "pyfloat \<Rightarrow> exn + int" where
  "remaining_days_of p = py_int (fmul (float_of_int 30) (fsub (float_of_int 1) p))"

definition action_of :: "pyfloat \<Rightarrow> string" where
  "action_of p = (if fgt p (float_lit (6 / 10)) then ''maintenance'' else ''monitor'')"

definition run_prediction ::
  "string list \<Rightarrow> (pyfloat list \<Rightarrow> exn + pyfloat) option \<Rightarrow> string \<Rightarrow> pyfloat pydict
     \<Rightarrow> exn + prediction_response" where
  "run_prediction equipment_db model eid readings =
     (if eid \<notin> set equipment_db then Inl (HTTPException 404)
      else case model of
        None \<Rightarrow>
          (let temperature = readings_get readings ''temperature'' 70;
               vibration = readings_get readings ''vibration'' 3;
               p = rule_based_probability temperature vibration
           in case remaining_days_of p of
                Inl e \<Rightarrow> Inl e
              | Inr remaining_days \<Rightarrow>
                  Inr \<lparr>resp_equipment_id = eid,
                       resp_prediction =
                         \<lparr>failure_probability = p,
                            remaining_useful_life_days = remaining_days,
                            recommended_action = action_of p,
                            confidence = float_lit (7 / 10)\<rparr>,
                       resp_note = Some ''Using rule-based prediction (no trained model found)''\<rparr>)
      | Some predict_proba \<Rightarrow>
          (let features = [readings_get readings ''temperature'' 70,
                           readings_get readings ''vibration'' 3,
                           readings_get readings ''pressure'' 100,
                           readings_get readings ''oil_level'' 90]
           in case predict_proba features of
                Inl e \<Rightarrow> Inl (HTTPException 500)
              | Inr p \<Rightarrow>
                  (case remaining_days_of p of
                     Inl e \<Rightarrow> Inl (HTTPException 500)
                   | Inr remaining_days \<Rightarrow>
                       Inr \<lparr>resp_equipment_id = eid,
                            resp_prediction =
                              \<lparr>failure_probability = p,
                                 remaining_useful_life_days = remaining_days,
                                 recommended_action = action_of p,
                                 confidence = float_lit (85 / 100)\<rparr>,
                            resp_note = None\<rparr>)))"

section \<open>connectors/data\_connector.py: DataConnector\<close>

type_synonym reading = "pyval pydict"

text \<open>
  The fields of \<open>DataConnector\<close> and of its subclasses that the lifecycle uses. A callback
  is a function of the reading that either returns (\<open>None\<close>) or raises.
\<close>

record connector =
  equipment_id :: string
  connected :: bool
  last_reading :: "reading option"
  callback :: "(reading \<Rightarrow> exn option) option"
  loop :: bool

text \<open>The argument of \<open>process_reading\<close>: a \<open>dict\<close>, or any other value.\<close>

datatype pydata = DictData "pyval pydict" | Scalar pyval

text \<open>
  \<open>process_reading(self, data)\<close>; \<open>now\<close> is \<open>datetime.utcnow().isoformat()\<close>. The
  result is the connector after the call (\<open>last_reading\<close> is assigned before the callback
  runs), the reading built, and the exception of the callback if it raised.
\<close>

definition build_reading :: "string \<Rightarrow> string \<Rightarrow> pydata \<Rightarrow> reading" where
  "build_reading eid now data =
     (let reading = [(''equipment_id'', PStr eid), (''timestamp'', PStr now)]
      in case data of
           DictData d \<Rightarrow> dict_update reading d
         | Scalar v \<Rightarrow> dict_set ''value'' v reading)"

definition process_reading ::
  "connector \<Rightarrow> string \<Rightarrow> pydata \<Rightarrow> connector \<times> (exn + reading)" where
  "process_reading self now data =
     (let reading = build_reading (equipment_id self) now data;
          self' = self\<lparr>last_reading := Some reading\<rparr>
      in case callback self of
           None \<Rightarrow> (self', Inr reading)
         | Some cb \<Rightarrow>
             (case cb reading of
                Some e \<Rightarrow> (self', Inl e)
              | None \<Rightarrow> (self', Inr reading)))"

section \<open>CSVFileConnector\<close>

text \<open>
  A row of \<open>csv.DictReader\<close>: the header's names with the cells of the line; a line
  shorter than the header has \<open>None\<close> for the missing cells. (Lines longer than the
  header are outside this model.) \<open>float(value)\<close> on a string is the parameter \<open>pf\<close>
  (\<open>None\<close> when it raises \<open>ValueError\<close>); on \<open>None\<close> it raises \<open>TypeError\<close>, which the
  source does not catch.
\<close>

type_synonym csv_row = "(string option) pydict"

fun convert_row :: "(string \<Rightarrow> pyfloat option) \<Rightarrow> csv_row \<Rightarrow> pyval pydict \<Rightarrow> exn + pyval pydict" where
  "convert_row pf [] processed_row = Inr processed_row"
| "convert_row pf ((key, None) # rest) processed_row = Inl TypeError"
| "convert_row pf ((key, Some value) # rest) processed_row =
     (case pf value of
        Some x \<Rightarrow> convert_row pf rest (dict_set key (PFloat x) processed_row)
      | None \<Rightarrow> convert_row pf rest (dict_set key (PStr value) processed_row))"

text \<open>
  \<open>_read_loop\<close>. The condition \<open>self.loop and self.connected\<close> is written by another
  thread (\<open>disconnect\<close>): \<open>n\<close> is the number of times the loop still finds it true. The
  clock \<open>now\<close> gives the timestamp of each remaining iteration. The result is the
  exception that ended the thread (\<open>None\<close> when the loop left normally), the readings
  handed to \<open>process_reading\<close> so far, and the connector.
\<close>

fun csv_loop ::
  "(string \<Rightarrow> pyfloat option) \<Rightarrow> (nat \<Rightarrow> string) \<Rightarrow> csv_row list \<Rightarrow> nat \<Rightarrow> nat \<Rightarrow> connector
     \<Rightarrow> exn option \<times> reading list \<times> connector" where
  "csv_loop pf now rows 0 row_index self = (None, [], self)"
| "csv_loop pf now rows (Suc n) row_index self =
     (case py_index rows row_index of
        Inl e \<Rightarrow> (Some e, [], self)
      | Inr row \<Rightarrow>
          (case convert_row pf row [] of
             Inl e \<Rightarrow> (Some e, [], self)
           | Inr processed_row \<Rightarrow>
               (case process_reading self (now n) (DictData processed_row) of
                  (self', Inl e) \<Rightarrow> (Some e, [], self')
                | (self', Inr r) \<Rightarrow>
                    (case py_mod (row_index + 1) (length rows) of
                       Inl e \<Rightarrow> (Some e, [r], self')
                     | Inr row_index' \<Rightarrow>
                         (case csv_loop pf now rows n row_index' self' of
                            (res, rs, self'') \<Rightarrow> (res, r # rs, self''))))))"

definition csv_read_loop ::
  "(string \<Rightarrow> pyfloat option) \<Rightarrow> (nat \<Rightarrow> string) \<Rightarrow> csv_row list \<Rightarrow> nat \<Rightarrow> connector
     \<Rightarrow> exn option \<times> reading list \<times> connector" where
  "csv_read_loop pf now rows n self = csv_loop pf now rows n 0 self"

text \<open>
  \<open>_read_once\<close>: every row is converted and handed to \<open>process_reading\<close>; the
  readings are collected in order. An exception ends the call.
\<close>

fun csv_read_rows ::
  "(string \<Rightarrow> pyfloat option) \<Rightarrow> (nat \<Rightarrow> string) \<Rightarrow> csv_row list \<Rightarrow> connector
     \<Rightarrow> connector \<times> (exn + reading list)" where
  "csv_read_rows pf now [] self = (self, Inr [])"
| "csv_read_rows pf now (row # rows) self =
     (case convert_row pf row [] of
        Inl e \<Rightarrow> (self, Inl e)
      | Inr processed_row \<Rightarrow>
          (case process_reading self (now (length rows)) (DictData processed_row) of
             (self', Inl e) \<Rightarrow> (self', Inl e)
           | (self', Inr r) \<Rightarrow>
               (case csv_read_rows pf now rows self' of
                  (self'', Inl e) \<Rightarrow> (self'', Inl e)
                | (self'', Inr readings) \<Rightarrow> (self'', Inr (r # readings)))))"

definition csv_read_once ::
  "(string \<Rightarrow> pyfloat option) \<Rightarrow> (nat \<Rightarrow> string) \<Rightarrow> csv_row list \<Rightarrow> connector
     \<Rightarrow> connector \<times> (exn + reading list)" where
  "csv_read_once pf now rows self = csv_read_rows pf now rows self"

text \<open>The callback of a connector never raises.\<close>

definition callback_quiet :: "connector \<Rightarrow> bool" where
  "callback_quiet self = (case callback self of None \<Rightarrow> True | Some cb \<Rightarrow> \<forall>r. cb r = None)"

text \<open>
  The exception \<open>e\<close> comes from the conversion of a row (\<open>float(None)\<close>) or from the
  callback, the two places of an iteration that can raise besides the indexing.
\<close>

definition raised_by_row_or_callback ::
  "(string \<Rightarrow> pyfloat option) \<Rightarrow> csv_row list \<Rightarrow> connector \<Rightarrow> exn \<Rightarrow> bool" where
  "raised_by_row_or_callback pf rows self e =
     ((\<exists>row\<in>set rows. convert_row pf row [] = Inl e)
      \<or> (\<exists>cb r. callback self = Some cb \<and> cb r = Some e))"

definition pump :: connector where
  "pump = \<lparr>equipment_id = ''PUMP001'', connected = True, last_reading = None,
            callback = None, loop = True\<rparr>"

section \<open>APIConnector\<close>

datatype level = INFO | WARNING | ERROR

type_synonym log = "(level \<times> string) list"

text \<open>
  What \<open>requests.get\<close>, \<open>raise_for_status\<close> and \<open>response.json()\<close> give in one call of
  \<open>_read_once\<close>: an exception, a JSON array or a single JSON value.
\<close>

datatype api_response = Fails exn | JsonList "pydata list" | JsonItem pydata

fun api_items ::
  "(nat \<Rightarrow> string) \<Rightarrow> pydata list \<Rightarrow> connector \<Rightarrow> connector \<times> (exn + reading list)" where
  "api_items now [] self = (self, Inr [])"
| "api_items now (item # items) self =
     (case process_reading self (now (length items)) item of
        (self', Inl e) \<Rightarrow> (self', Inl e)
      | (self', Inr r) \<Rightarrow>
          (case api_items now items self' of
             (self'', Inl e) \<Rightarrow> (self'', Inl e)
           | (self'', Inr readings) \<Rightarrow> (self'', Inr (r # readings))))"

text \<open>\<open>_read_once\<close>: every exception is logged and raised again.\<close>

definition api_read_once ::
  "connector \<Rightarrow> (nat \<Rightarrow> string) \<Rightarrow> api_response \<Rightarrow> connector \<times> log \<times> (exn + reading list)" where
  "api_read_once self now resp =
     (case resp of
        Fails e \<Rightarrow> (self, [(ERROR, ''Failed to read data from API'')], Inl e)
      | JsonList items \<Rightarrow>
          (case api_items now items self of
             (self', Inl e) \<Rightarrow> (self', [(ERROR, ''Failed to read data from API'')], Inl e)
           | (self', Inr readings) \<Rightarrow> (self', [], Inr readings))
      | JsonItem item \<Rightarrow>
          (case process_reading self (now 0) item of
             (self', Inl e) \<Rightarrow> (self', [(ERROR, ''Failed to read data from API'')], Inl e)
           | (self', Inr r) \<Rightarrow> (self', [], Inr [r])))"

text \<open>
  \<open>_read_loop\<close>, with \<open>n\<close> as in \<open>csv_loop\<close>: the call of \<open>_read_once\<close> is inside
  \<open>try ... except Exception\<close>, which logs the error; the loop then sleeps and goes on.
  The result is the exception that ended the thread, the log and the connector.
\<close>

fun api_read_loop ::
  "(nat \<Rightarrow> api_response) \<Rightarrow> (nat \<Rightarrow> nat \<Rightarrow> string) \<Rightarrow> nat \<Rightarrow> connector
     \<Rightarrow> exn option \<times> log \<times> connector" where
  "api_read_loop fetch now 0 self = (None, [], self)"
| "api_read_loop fetch now (Suc n) self =
     (case api_read_once self (now n) (fetch n) of
        (self', lg, Inl e) \<Rightarrow>
          (case api_read_loop fetch now n self' of
             (res, lg', self'') \<Rightarrow> (res, lg @ [(ERROR, ''Error in API read loop'')] @ lg', self''))
      | (self', lg, Inr readings) \<Rightarrow>
          (case api_read_loop fetch now n self' of
             (res, lg', self'') \<Rightarrow> (res, lg @ lg', self'')))"

text \<open>A connector whose callback (the ingestion pipeline) raises on every reading.\<close>

definition failing_sink :: connector where
  "failing_sink = pump\<lparr>callback := Some (\<lambda>r. Some CallbackError)\<rparr>"

section \<open>ModbusConnector\<close>

text \<open>
  \<open>sys.byteorder\<close> of the host: \<open>array.array('H', ...).tobytes()\<close> gives the machine
  representation of its unsigned 16-bit items, so the order of the two bytes of an item is
  the host's.
\<close>

datatype byteorder = Little | Big

fun tobytes_H :: "byteorder \<Rightarrow> int list \<Rightarrow> int list" where
  "tobytes_H bo [] = []"
| "tobytes_H Little (x # xs) = (x mod 256) # (x div 256) # tobytes_H Little xs"
| "tobytes_H Big (x # xs) = (x div 256) # (x mod 256) # tobytes_H Big xs"

text \<open>
  The value of the IEEE-754 binary32 pattern \<open>w\<close> (a number below \<open>2\<^sup>3\<^sup>2\<close>); Python keeps it
  as a double, which holds every binary32 value exactly.
\<close>

definition float32_value :: "int \<Rightarrow> pyfloat" where
  "float32_value w =
     (let negative = (w div 2 ^ 31 = 1);
          ex = (w div 2 ^ 23) mod 256;
          mant = w mod 2 ^ 23
      in if ex = 255 then (if mant = 0 then (if negative then NInf else PInf) else NaN)
         else if ex = 0 then
           (if mant = 0 then (if negative then NegZero else Fin 0)
            else Fin ((if negative then - 1 else 1) * of_int mant * pow2 (- 149)))
         else Fin ((if negative then - 1 else 1) * of_int (2 ^ 23 + mant) * pow2 (ex - 150)))"

text \<open>\<open>struct.unpack('>f', temp_bytes)[0]\<close>: four bytes, the first one the most significant.\<close>

fun unpack_f_be :: "int list \<Rightarrow> exn + pyfloat" where
  "unpack_f_be [b0, b1, b2, b3] = Inr (float32_value (((b0 * 256 + b1) * 256 + b2) * 256 + b3))"
| "unpack_f_be _ = Inl StructError"

text \<open>
  \<open>_decode_ieee\<close>. An item outside \<open>0..65535\<close> makes \<open>array.array('H', ...)\<close> raise
  \<open>OverflowError\<close>.
\<close>

definition decode_ieee :: "byteorder \<Rightarrow> int \<Rightarrow> int \<Rightarrow> exn + pyfloat" where
  "decode_ieee bo register1 register2 =
     (if register1 < 0 \<or> 65535 < register1 \<or> register2 < 0 \<or> 65535 < register2
      then Inl OverflowError
      else let temp_bytes = tobytes_H bo [register1, register2]
           in unpack_f_be temp_bytes)"

text \<open>
  \<open>value * scaling\<close> on Python values: \<open>int * int\<close> is exact, a \<open>float\<close> operand makes
  the product a float (an \<open>int\<close> too large for a float raises \<open>OverflowError\<close>), \<open>bool\<close>
  counts as \<open>int\<close>, \<open>int * str\<close> repeats the string.
\<close>

definition int_to_float :: "int \<Rightarrow> exn + pyfloat" where
  "int_to_float i =
     (let x = float_of_int i in if is_finite x then Inr x else Inl OverflowError)"

fun int_mul :: "int \<Rightarrow> pyval \<Rightarrow> exn + pyval" where
  "int_mul a (PInt b) = Inr (PInt (a * b))"
| "int_mul a (PFloat y) =
     (case int_to_float a of Inl e \<Rightarrow> Inl e | Inr x \<Rightarrow> Inr (PFloat (fmul x y)))"
| "int_mul a (PBool b) = Inr (PInt (a * (if b then 1 else 0)))"
| "int_mul a (PStr s) = Inr (PStr (concat (replicate (nat a) s)))"

fun py_mul :: "pyval \<Rightarrow> pyval \<Rightarrow> exn + pyval" where
  "py_mul (PInt a) y = int_mul a y"
| "py_mul (PBool a) y = int_mul (if a then 1 else 0) y"
| "py_mul (PFloat x) (PInt b) =
     (case int_to_float b of Inl e \<Rightarrow> Inl e | Inr y \<Rightarrow> Inr (PFloat (fmul x y)))"
| "py_mul (PFloat x) (PFloat y) = Inr (PFloat (fmul x y))"
| "py_mul (PFloat x) (PBool b) = Inr (PFloat (fmul x (Fin (if b then 1 else 0))))"
| "py_mul (PFloat x) (PStr s) = Inl TypeError"
| "py_mul (PStr s) (PInt b) = Inr (PStr (concat (replicate (nat b) s)))"
| "py_mul (PStr s) (PBool b) = Inr (PStr (if b then s else []))"
| "py_mul (PStr s) (PFloat y) = Inl TypeError"
| "py_mul (PStr s) (PStr t) = Inl TypeError"

text \<open>
  An entry of \<open>self.registers\<close>; a missing key takes the default of \<open>config.get\<close>.
\<close>

record register_config =
  reg_type :: "string option"
  address :: "int option"
  count :: "int option"
  data_type :: "string option"
  scaling :: "pyval option"

text \<open>
  What a read of the client gives: an exception raised by the call, a response for which
  \<open>isError()\<close> holds, or a response that carries the items read. The client is the two
  families of reads, by register type (\<open>holding\<close>, \<open>input\<close>; \<open>coil\<close>, \<open>discrete\<close>),
  address and count.
\<close>

datatype 'a response = Raises exn | IsError | Result 'a

record modbus_client =
  read_registers :: "string \<Rightarrow> int \<Rightarrow> int \<Rightarrow> int list response"
  read_bits :: "string \<Rightarrow> int \<Rightarrow> int \<Rightarrow> bool list response"

text \<open>The decoding of the registers of a holding or input read, then the scaling.\<close>

definition decode_registers ::
  "byteorder \<Rightarrow> string \<Rightarrow> int list \<Rightarrow> pyval \<Rightarrow> exn + pyval" where
  "decode_registers bo dtype registers scale =
     (if dtype = ''float'' \<and> 2 \<le> length registers then
        (case decode_ieee bo (registers ! 0) (registers ! 1) of
           Inl e \<Rightarrow> Inl e
         | Inr v \<Rightarrow> py_mul (PFloat v) scale)
      else if dtype = ''int32'' \<and> 2 \<le> length registers then
        py_mul (PInt (registers ! 0 * 2 ^ 16 + registers ! 1)) scale
      else
        (case py_index registers 0 of
           Inl e \<Rightarrow> Inl e
         | Inr v \<Rightarrow> py_mul (PInt v) scale))"

text \<open>
  The body of the loop of \<open>_read_once\<close> for one entry: the log lines written, and either
  the exception that leaves \<open>_read_once\<close>, or \<open>None\<close> when the entry is skipped
  (\<open>continue\<close>), or the value stored under the name.
\<close>

definition read_register ::
  "byteorder \<Rightarrow> modbus_client \<Rightarrow> string \<Rightarrow> register_config \<Rightarrow> log \<times> (exn + pyval option)" where
  "read_register bo client name config =
     (let register_type = (case reg_type config of Some t \<Rightarrow> t | None \<Rightarrow> ''holding'');
          addr = (case address config of Some a \<Rightarrow> a | None \<Rightarrow> 0);
          cnt = (case count config of Some c \<Rightarrow> c | None \<Rightarrow> 1);
          dtype = (case data_type config of Some d \<Rightarrow> d | None \<Rightarrow> ''float'');
          scale = (case scaling config of Some s \<Rightarrow> s | None \<Rightarrow> PFloat (Fin 1))
      in if register_type = ''holding'' \<or> register_type = ''input'' then
           (case read_registers client register_type addr cnt of
              Raises e \<Rightarrow> ([], Inl e)
            | IsError \<Rightarrow> ([(ERROR, ''Error reading register'')], Inr None)
            | Result registers \<Rightarrow>
                (case decode_registers bo dtype registers scale of
                   Inl e \<Rightarrow> ([], Inl e)
                 | Inr v \<Rightarrow> ([], Inr (Some v))))
         else if register_type = ''coil'' \<or> register_type = ''discrete'' then
           (case read_bits client register_type addr cnt of
              Raises e \<Rightarrow> ([], Inl e)
            | IsError \<Rightarrow> ([(ERROR, ''Error reading register'')], Inr None)
            | Result bits \<Rightarrow>
                (case py_index bits 0 of
                   Inl e \<Rightarrow> ([], Inl e)
                 | Inr b \<Rightarrow> ([], Inr (Some (PBool b)))))
         else ([(WARNING, ''Unknown register type'')], Inr None))"

text \<open>The loop over \<open>self.registers.items()\<close>, filling the dict \<open>readings\<close>.\<close>

fun read_registers_loop ::
  "byteorder \<Rightarrow> modbus_client \<Rightarrow> register_config pydict \<Rightarrow> pyval pydict
     \<Rightarrow> log \<times> (exn + pyval pydict)" where
  "read_registers_loop bo client [] readings = ([], Inr readings)"
| "read_registers_loop bo client ((name, config) # rest) readings =
     (case read_register bo client name config of
        (lg, Inl e) \<Rightarrow> (lg, Inl e)
      | (lg, Inr None) \<Rightarrow>
          (case read_registers_loop bo client rest readings of
             (lg', res) \<Rightarrow> (lg @ lg', res))
      | (lg, Inr (Some v)) \<Rightarrow>
          (case read_registers_loop bo client rest (dict_set name v readings) of
             (lg', res) \<Rightarrow> (lg @ lg', res)))"

text \<open>
  \<open>_read_once\<close>: the readings of all entries go to \<open>process_reading\<close>, and the one
  reading is returned in a list.
\<close>

definition modbus_read_once ::
  "byteorder \<Rightarrow> modbus_client \<Rightarrow> string \<Rightarrow> register_config pydict \<Rightarrow> connector
     \<Rightarrow> connector \<times> log \<times> (exn + reading list)" where
  "modbus_read_once bo client now registers self =
     (case read_registers_loop bo client registers [] of
        (lg, Inl e) \<Rightarrow> (self, lg, Inl e)
      | (lg, Inr readings) \<Rightarrow>
          (case process_reading self now (DictData readings) of
             (self', Inl e) \<Rightarrow> (self', lg, Inl e)
           | (self', Inr reading) \<Rightarrow> (self', lg, Inr [reading])))"

text \<open>
  A device that answers every register read with the one word \<open>r\<close>, and a register
  entry of data type \<open>float\<close> that asks for one register only.
\<close>

definition one_register_client :: "int \<Rightarrow> modbus_client" where
  "one_register_client r =
     \<lparr>read_registers = (\<lambda>t a c. Result [r]), read_bits = (\<lambda>t a c. IsError)\<rparr>"

definition float_count_1 :: register_config where
  "float_count_1 =
     \<lparr>reg_type = Some ''holding'', address = Some 0, count = Some 1,
        data_type = Some ''float'', scaling = Some (PFloat (Fin 1))\<rparr>"

text \<open>
  What one entry contributes to a read: the value decoded for its name, if any, and
  whether its read or its decoding raises.
\<close>

definition decoded :: "byteorder \<Rightarrow> modbus_client \<Rightarrow> string \<Rightarrow> register_config \<Rightarrow> pyval option" where
  "decoded bo client name config =
     (case snd (read_register bo client name config) of Inr (Some v) \<Rightarrow> Some v | _ \<Rightarrow> None)"

definition raises :: "byteorder \<Rightarrow> modbus_client \<Rightarrow> string \<Rightarrow> register_config \<Rightarrow> bool" where
  "raises bo client name config = isl (snd (read_register bo client name config))"

text \<open>
  The conditions of \<open>_read_once\<close> on one entry: its register type with the default of
  \<open>config.get\<close>, whether that type is none of the four that are read (the final \<open>else\<close>),
  and whether the response to its read has \<open>isError()\<close>.
\<close>

definition register_type_of :: "register_config \<Rightarrow> string" where
  "register_type_of config = (case reg_type config of Some t \<Rightarrow> t | None \<Rightarrow> ''holding'')"

definition unknown_type :: "register_config \<Rightarrow> bool" where
  "unknown_type config =
     (register_type_of config \<noteq> ''holding'' \<and> register_type_of config \<noteq> ''input''
      \<and> register_type_of config \<noteq> ''coil'' \<and> register_type_of config \<noteq> ''discrete'')"

definition is_error :: "modbus_client \<Rightarrow> register_config \<Rightarrow> bool" where
  "is_error client config =
     (let register_type = register_type_of config;
          addr = (case address config of Some a \<Rightarrow> a | None \<Rightarrow> 0);
          cnt = (case count config of Some c \<Rightarrow> c | None \<Rightarrow> 1)
      in if register_type = ''holding'' \<or> register_type = ''input'' then
           read_registers client register_type addr cnt = IsError
         else if register_type = ''coil'' \<or> register_type = ''discrete'' then
           read_bits client register_type addr cnt = IsError
         else False)"

text \<open>
  Whether the read of an entry raises: the call of the client raises, or the response
  carries no item (\<open>registers[0]\<close>, \<open>bits[0]\<close>), or the decoding of its registers does.
\<close>

definition read_fails :: "byteorder \<Rightarrow> modbus_client \<Rightarrow> register_config \<Rightarrow> bool" where
  "read_fails bo client config =
     (let register_type = register_type_of config;
          addr = (case address config of Some a \<Rightarrow> a | None \<Rightarrow> 0);
          cnt = (case count config of Some c \<Rightarrow> c | None \<Rightarrow> 1);
          dtype = (case data_type config of Some d \<Rightarrow> d | None \<Rightarrow> ''float'');
          scale = (case scaling config of Some s \<Rightarrow> s | None \<Rightarrow> PFloat (Fin 1))
      in if register_type = ''holding'' \<or> register_type = ''input'' then
           (case read_registers client register_type addr cnt of
              Raises e \<Rightarrow> True
            | IsError \<Rightarrow> False
            | Result registers \<Rightarrow> isl (decode_registers bo dtype registers scale))
         else if register_type = ''coil'' \<or> register_type = ''discrete'' then
           (case read_bits client register_type addr cnt of
              Raises e \<Rightarrow> True
            | IsError \<Rightarrow> False
            | Result bits \<Rightarrow> bits = [])
         else False)"

text \<open>The reading before the sensor fields are added.\<close>

definition base_reading :: "connector \<Rightarrow> string \<Rightarrow> reading" where
  "base_reading self now = [(''equipment_id'', PStr (equipment_id self)), (''timestamp'', PStr now)]"

text \<open>
  Two register entries, one well-formed and one of an unknown register type, and a device
  that answers the read at address 0 with the word 7 and every other read with \<open>bad\<close>.
\<close>

definition int16_at :: "int \<Rightarrow> register_config" where
  "int16_at a =
     \<lparr>reg_type = Some ''holding'', address = Some a, count = Some 1,
        data_type = Some ''int16'', scaling = Some (PInt 1)\<rparr>"

definition unknown_kind :: register_config where
  "unknown_kind =
     \<lparr>reg_type = Some ''holdings'', address = Some 1, count = Some 1,
        data_type = Some ''int16'', scaling = Some (PInt 1)\<rparr>"

definition flaky_client :: "int list response \<Rightarrow> modbus_client" where
  "flaky_client bad =
     \<lparr>read_registers = (\<lambda>t a c. if a = 0 then Result [7] else bad),
        read_bits = (\<lambda>t a c. IsError)\<rparr>"

section \<open>main.py: the registry of active connectors\<close>

text \<open>
  A connector object as the endpoints of \<open>main.py\<close> see it: the fields of
  \<open>DataConnector\<close>, its class, whether its polling thread is alive, and whether it holds
  a protocol client (\<open>self.client\<close> of the Modbus and OPC-UA connectors).
\<close>

datatype connector_class = CSVFileConnector | APIConnector | ModbusConnector | OPCUAConnector

record managed_connector = connector +
  cls :: connector_class
  thread_alive :: bool
  has_client :: bool

text \<open>
  The objects live in a heap and are named by their index; \<open>active_connectors\<close> is the
  module-level dict from equipment id to object.
\<close>

record world =
  heap :: "managed_connector list"
  active_connectors :: "nat pydict"
  wlog :: log

text \<open>
  What the code asks of the outside: whether the optional connector classes were imported,
  whether \<open>connect()\<close> reaches the source given by the connection parameters, whether
  the polling thread of an object ends within the two seconds of
  \<open>thread.join(timeout=2)\<close>, and whether closing the client of an object returns.
\<close>

record env =
  modbus_available :: bool
  opcua_available :: bool
  source_ok :: "connector_class \<Rightarrow> string list \<Rightarrow> bool"
  thread_exits :: "nat \<Rightarrow> bool"
  close_ok :: "nat \<Rightarrow> bool"

record connector_config =
  connector_type :: string
  cfg_equipment_id :: string
  connection_params :: "string list"

definition new_connector :: "string \<Rightarrow> connector_class \<Rightarrow> managed_connector" where
  "new_connector eid c =
     \<lparr>equipment_id = eid, connected = False, last_reading = None, callback = None,
        loop = False, cls = c, thread_alive = False, has_client = False\<rparr>"

text \<open>
  \<open>create_connector(equipment_id, connector_type, *args)\<close>: the connection parameters are
  the positional arguments of the constructor, one for the file path, the URL or the
  server, one or two (host, port) for Modbus; a wrong number is a \<open>TypeError\<close>.
\<close>

definition create_connector :: "env \<Rightarrow> string \<Rightarrow> string \<Rightarrow> string list \<Rightarrow> exn + managed_connector" where
  "create_connector ev eid ctype args =
     (if ctype = ''csv'' then
        (if length args = 1 then Inr (new_connector eid CSVFileConnector) else Inl TypeError)
      else if ctype = ''api'' then
        (if length args = 1 then Inr (new_connector eid APIConnector) else Inl TypeError)
      else if ctype = ''modbus'' \<and> modbus_available ev then
        (if length args = 1 \<or> length args = 2 then Inr (new_connector eid ModbusConnector)
         else Inl TypeError)
      else if ctype = ''opcua'' \<and> opcua_available ev then
        (if length args = 1 then Inr (new_connector eid OPCUAConnector) else Inl TypeError)
      else Inl ValueError)"

text \<open>\<open>connect()\<close>: the Modbus and OPC-UA connectors create their client first.\<close>

definition connect :: "env \<Rightarrow> string list \<Rightarrow> managed_connector \<Rightarrow> managed_connector \<times> exn option" where
  "connect ev args c =
     (let c1 = (if cls c = ModbusConnector \<or> cls c = OPCUAConnector
                then c\<lparr>has_client := True\<rparr> else c)
      in if source_ok ev (cls c) args then (c1\<lparr>connected := True\<rparr>, None)
         else (c1, Some (if cls c = CSVFileConnector then FileNotFoundError else ConnectionError)))"

text \<open>\<open>read_data(loop=True)\<close>: the polling thread is started.\<close>

definition read_data_loop :: "managed_connector \<Rightarrow> managed_connector \<times> exn option" where
  "read_data_loop c =
     (if \<not> connected c then (c, Some ConnectionError)
      else (c\<lparr>loop := True, thread_alive := True\<rparr>, None))"

text \<open>
  \<open>disconnect()\<close> of the object \<open>r\<close>: the client, if any, is closed first (and may
  raise); then both flags are cleared, a live thread is joined for at most two seconds,
  and one line is logged. The join returns whether or not the thread has ended.
\<close>

definition disconnect :: "env \<Rightarrow> nat \<Rightarrow> managed_connector \<Rightarrow> managed_connector \<times> log \<times> exn option" where
  "disconnect ev r c =
     (if has_client c \<and> \<not> close_ok ev r then (c, [], Some ClientError)
      else
        let c1 = c\<lparr>connected := False, loop := False\<rparr>;
            c2 = (if thread_alive c1 then c1\<lparr>thread_alive := \<not> thread_exits ev r\<rparr> else c1)
        in (c2, [(INFO, ''Disconnected'')], None))"

text \<open>
  \<open>stop_connector(equipment_id)\<close>: \<open>404\<close> for an id that is not registered; otherwise
  the object is disconnected and its entry deleted. An exception of \<open>disconnect\<close> is
  logged and becomes a \<open>500\<close>, and the entry stays.
\<close>

definition stop_connector :: "env \<Rightarrow> string \<Rightarrow> world \<Rightarrow> world \<times> (exn + string)" where
  "stop_connector ev eid w =
     (case dict_get (active_connectors w) eid of
        None \<Rightarrow> (w, Inl (HTTPException 404))
      | Some r \<Rightarrow>
          (case disconnect ev r (heap w ! r) of
             (c, lg, Some e) \<Rightarrow>
               (w\<lparr>heap := (heap w)[r := c],
                   wlog := wlog w @ lg @ [(ERROR, ''Error stopping connector'')]\<rparr>,
                Inl (HTTPException 500))
           | (c, lg, None) \<Rightarrow>
               (w\<lparr>heap := (heap w)[r := c],
                   active_connectors := AList.delete eid (active_connectors w),
                   wlog := wlog w @ lg\<rparr>,
                Inr ''Connector stopped successfully'')))"

text \<open>
  \<open>setup_connector(config)\<close>. A registered connector of the same id is stopped first;
  then the new object is created, given the callback \<open>cb\<close>, connected, set polling, and
  stored under the id. Every exception on the way is logged and becomes a \<open>500\<close>.
\<close>

definition setup_failed :: "world \<Rightarrow> world \<times> (exn + string)" where
  "setup_failed w =
     (w\<lparr>wlog := wlog w @ [(ERROR, ''Error setting up connector'')]\<rparr>, Inl (HTTPException 500))"

definition setup_connector ::
  "env \<Rightarrow> (reading \<Rightarrow> exn option) \<Rightarrow> connector_config \<Rightarrow> world \<Rightarrow> world \<times> (exn + string)" where
  "setup_connector ev cb config w =
     (let eid = cfg_equipment_id config;
          (w1, stopped) =
            (if dict_get (active_connectors w) eid \<noteq> None then stop_connector ev eid w
             else (w, Inr []))
      in case stopped of
           Inl e \<Rightarrow> setup_failed w1
         | Inr _ \<Rightarrow>
             (case create_connector ev eid (connector_type config) (connection_params config) of
                Inl e \<Rightarrow> setup_failed w1
              | Inr c0 \<Rightarrow>
                  (let r = length (heap w1);
                       c1 = c0\<lparr>callback := Some cb\<rparr>;
                       (c2, failed) = connect ev (connection_params config) c1
                   in case failed of
                        Some e \<Rightarrow> setup_failed (w1\<lparr>heap := heap w1 @ [c2]\<rparr>)
                      | None \<Rightarrow>
                          (let (c3, failed') = read_data_loop c2
                           in case failed' of
                                Some e \<Rightarrow> setup_failed (w1\<lparr>heap := heap w1 @ [c3]\<rparr>)
                              | None \<Rightarrow>
                                  (w1\<lparr>heap := heap w1 @ [c3],
                                       active_connectors := dict_set eid r (active_connectors w1)\<rparr>,
                                   Inr ''Connector set up successfully'')))))"

text \<open>\<open>list_connectors()\<close>: id, class name and status of every registered object.\<close>

fun class_name :: "connector_class \<Rightarrow> string" where
  "class_name CSVFileConnector = ''CSVFileConnector''"
| "class_name APIConnector = ''APIConnector''"
| "class_name ModbusConnector = ''ModbusConnector''"
| "class_name OPCUAConnector = ''OPCUAConnector''"

definition list_connectors :: "world \<Rightarrow> (string \<times> string \<times> string) list" where
  "list_connectors w =
     map (\<lambda>(eid, r). (eid, class_name (cls (heap w ! r)),
                        if connected (heap w ! r) then ''running'' else ''stopped''))
       (active_connectors w)"

text \<open>The class that \<open>create_connector\<close> builds for a connector type.\<close>

definition class_of_type :: "string \<Rightarrow> connector_class option" where
  "class_of_type ctype =
     (if ctype = ''csv'' then Some CSVFileConnector
      else if ctype = ''api'' then Some APIConnector
      else if ctype = ''modbus'' then Some ModbusConnector
      else if ctype = ''opcua'' then Some OPCUAConnector
      else None)"

text \<open>
  A well-formed world: the registry is a dict (no id twice) and every entry names an
  object of the heap.
\<close>

definition wf_world :: "world \<Rightarrow> bool" where
  "wf_world w =
     (distinct (map fst (active_connectors w))
      \<and> (\<forall>(eid, r) \<in> set (active_connectors w). r < length (heap w)))"

definition empty_world :: world where
  "empty_world = \<lparr>heap = [], active_connectors = [], wlog = []\<rparr>"

text \<open>
  The callback that \<open>setup_connector\<close> installs is an \<open>async def\<close>: calling it builds a
  coroutine and returns.
\<close>

definition data_callback :: "reading \<Rightarrow> exn option" where
  "data_callback r = None"

text \<open>
  Two environments and two configurations for the same equipment: in \<open>reachable\<close> every
  source answers and every polling thread ends within the join; in \<open>stuck\<close> no thread
  does.
\<close>

definition reachable :: env where
  "reachable = \<lparr>modbus_available = True, opcua_available = True,
                 source_ok = (\<lambda>c a. True), thread_exits = (\<lambda>r. True),
                 close_ok = (\<lambda>r. True)\<rparr>"

definition stuck :: env where
  "stuck = reachable\<lparr>thread_exits := (\<lambda>r. False)\<rparr>"

definition csv_config :: connector_config where
  "csv_config = \<lparr>connector_type = ''csv'', cfg_equipment_id = ''PUMP001'',
                  connection_params = [''pump.csv'']\<rparr>"

definition api_config :: connector_config where
  "api_config = \<lparr>connector_type = ''api'', cfg_equipment_id = ''PUMP001'',
                  connection_params = [''http://plant/api'']\<rparr>"

definition modbus_config :: connector_config where
  "modbus_config = \<lparr>connector_type = ''modbus'', cfg_equipment_id = ''PUMP001'',
                     connection_params = [''10.0.0.5'', ''502'']\<rparr>"

text \<open>In \<open>jammed\<close> closing a client raises.\<close>

definition jammed :: env where
  "jammed = reachable\<lparr>close_ok := (\<lambda>r. False)\<rparr>"

text \<open>In \<open>offline\<close> no source can be reached.\<close>

definition offline :: env where
  "offline = reachable\<lparr>source_ok := (\<lambda>c a. False)\<rparr>"

section \<open>models/data\_processor.py: DataProcessor.\_engineer\_features\<close>














section \<open>Properties of the binary64 model\<close>

text \<open>
  \<open>ilog2\<close> is the binary exponent: the only \<open>e\<close> with \<open>2\<^sup>e \<le> a < 2\<^sup>e\<^sup>+\<^sup>1\<close>.
\<close>

lemma pow2_powi: "pow2 e = power_int 2 e"
  by (simp add: pow2_def power_int_def inverse_eq_divide power_one_over)

lemma pow2_pos: "0 < pow2 e"
  by (simp add: pow2_powi)

lemma pow2_mono: "e \<le> e' \<Longrightarrow> pow2 e \<le> pow2 e'"
  by (simp add: pow2_powi power_int_increasing)

lemma ilog2_bounds:
  assumes "0 < a"
  shows "pow2 (ilog2 a) \<le> a \<and> a < pow2 (ilog2 a + 1)"
proof -
  obtain n d where q: "quotient_of a = (n, d)" by (cases "quotient_of a")
  then have d: "0 < d" and a: "a = of_int n / of_int d"
    by (rule quotient_of_denom_pos, rule quotient_of_div)
  with assms have n: "0 < n" by (simp add: zero_less_divide_iff)
  let ?bn = "bitlen n" and ?bd = "bitlen d"
  from n have bn: "1 \<le> ?bn" by (auto simp: bitlen_alt_def)
  from d have bd: "1 \<le> ?bd" by (auto simp: bitlen_alt_def)
  from bitlen_bounds [OF n] have n1: "(2::rat) ^ nat (?bn - 1) \<le> of_int n" and n2: "of_int n < (2::rat) ^ nat ?bn"
    by (metis of_int_le_iff of_int_numeral of_int_power, metis of_int_less_iff of_int_numeral of_int_power)
  from bitlen_bounds [OF d] have d1: "(2::rat) ^ nat (?bd - 1) \<le> of_int d" and d2: "of_int d < (2::rat) ^ nat ?bd"
    by (metis of_int_le_iff of_int_numeral of_int_power, metis of_int_less_iff of_int_numeral of_int_power)
  have pn1: "power_int 2 (?bn - 1) \<le> (of_int n :: rat)" using n1 bn by (simp add: power_int_def)
  have pn2: "(of_int n :: rat) < power_int 2 ?bn" using n2 bn by (simp add: power_int_def)
  have pd1: "power_int 2 (?bd - 1) \<le> (of_int d :: rat)" using d1 bd by (simp add: power_int_def)
  have pd2: "(of_int d :: rat) < power_int 2 ?bd" using d2 bd by (simp add: power_int_def)
  have dpos: "(0::rat) < of_int d" using d by simp
  have up: "a < pow2 (?bn - ?bd + 1)"
  proof -
    have "of_int n < power_int 2 (?bn - ?bd + 1) * (power_int 2 (?bd - 1) :: rat)"
      using pn2 by (simp flip: power_int_add)
    also have "\<dots> \<le> power_int 2 (?bn - ?bd + 1) * of_int d"
      using pd1 by (intro mult_left_mono) simp_all
    finally show ?thesis using dpos by (simp add: a pow2_powi field_simps)
  qed
  have lo: "pow2 (?bn - ?bd - 1) \<le> a"
  proof -
    have "power_int 2 (?bn - ?bd - 1) * of_int d \<le> power_int 2 (?bn - ?bd - 1) * (power_int 2 ?bd :: rat)"
      using pd2 by (intro mult_left_mono) simp_all
    also have "\<dots> = power_int 2 (?bn - 1)"
      by (simp flip: power_int_add)
    also have "\<dots> \<le> of_int n" by (rule pn1)
    finally show ?thesis using dpos by (simp add: a pow2_powi field_simps)
  qed
  show ?thesis
    using up lo q by (simp add: ilog2_def Let_def)
qed

lemma ilog2_unique:
  assumes "pow2 e \<le> a" and "a < pow2 (e + 1)"
  shows "ilog2 a = e"
proof -
  from assms(1) have pos: "0 < a" using pow2_pos [of e] by simp
  note b = ilog2_bounds [OF pos]
  have "\<not> ilog2 a < e"
  proof
    assume "ilog2 a < e"
    then have "pow2 (ilog2 a + 1) \<le> pow2 e" by (intro pow2_mono) simp
    with b assms show False by simp
  qed
  moreover have "\<not> e < ilog2 a"
  proof
    assume "e < ilog2 a"
    then have "pow2 (e + 1) \<le> pow2 (ilog2 a)" by (intro pow2_mono) simp
    with b assms show False by simp
  qed
  ultimately show ?thesis by simp
qed

text \<open>
  Rounding a rational whose binary exponent \<open>e\<close> is known and in the normal range.
\<close>

lemma round_double_normal:
  assumes "pow2 e \<le> \<bar>q\<bar>" and "\<bar>q\<bar> < pow2 (e + 1)" and "- 1022 \<le> e"
  shows "round_double q =
     (let ulp = pow2 (e - 52);
          m = of_int (round_half_even (\<bar>q\<bar> / ulp)) * ulp
      in if pow2 1024 \<le> m then (if q < 0 then NInf else PInf)
         else if m = 0 then (if q < 0 then NegZero else Fin 0)
         else Fin (if q < 0 then - m else m))"
proof -
  from assms(1) have "q \<noteq> 0" using pow2_pos [of e] by auto
  moreover have "ilog2 \<bar>q\<bar> = e" using assms(1,2) by (rule ilog2_unique)
  moreover have "max e (- 1022) = e" using assms(3) by simp
  ultimately show ?thesis by (simp only: round_double_def Let_def if_False)
qed

lemma floor_rat_numeral_div:
  "\<lfloor>numeral a / numeral b :: rat\<rfloor> = numeral a div numeral b"
  by (metis floor_divide_of_int_eq of_int_numeral)

text \<open>The floats that the rule-based prediction computes.\<close>

lemmas float_eval = pow2_def round_half_even_def Let_def floor_rat_numeral_div

lemma float_lit_0: "float_lit 0 = Fin 0"
  by (simp add: float_lit_def round_double_def)

lemma float_of_int_1: "float_of_int 1 = Fin 1"
  unfolding float_of_int_def
  by (subst round_double_normal [where e = 0]) (simp_all add: float_eval)

lemma float_of_int_5: "float_of_int 5 = Fin 5"
  unfolding float_of_int_def
  by (subst round_double_normal [where e = 2]) (simp_all add: float_eval)

lemma float_of_int_30: "float_of_int 30 = Fin 30"
  unfolding float_of_int_def
  by (subst round_double_normal [where e = 4]) (simp_all add: float_eval)

lemma float_of_int_85: "float_of_int 85 = Fin 85"
  unfolding float_of_int_def
  by (subst round_double_normal [where e = 6]) (simp_all add: float_eval)

lemma float_lit_04: "float_lit (2 / 5) = Fin (3602879701896397 / 9007199254740992)"
  unfolding float_lit_def
  by (subst round_double_normal [where e = "- 2"]) (simp_all add: float_eval)

lemma float_lit_06: "float_lit (3 / 5) = Fin (5404319552844595 / 9007199254740992)"
  unfolding float_lit_def
  by (subst round_double_normal [where e = "- 1"]) (simp_all add: float_eval)

lemma fadd_0_04:
  "fadd (Fin 0) (Fin (3602879701896397 / 9007199254740992))
     = Fin (3602879701896397 / 9007199254740992)"
  unfolding fadd_def
  by (simp, subst round_double_normal [where e = "- 2"]) (simp_all add: float_eval)

lemma fadd_04_04:
  "fadd (Fin (3602879701896397 / 9007199254740992)) (Fin (3602879701896397 / 9007199254740992))
     = Fin (3602879701896397 / 4503599627370496)"
  unfolding fadd_def
  by (simp, subst round_double_normal [where e = "- 1"]) (simp_all add: float_eval)

lemma fsub_1_0: "fsub (Fin 1) (Fin 0) = Fin 1"
  unfolding fsub_def fadd_def
  by (simp, subst round_double_normal [where e = 0]) (simp_all add: float_eval)

lemma fsub_1_04:
  "fsub (Fin 1) (Fin (3602879701896397 / 9007199254740992))
     = Fin (5404319552844595 / 9007199254740992)"
  unfolding fsub_def fadd_def
  by (simp, subst round_double_normal [where e = "- 1"]) (simp_all add: float_eval)

lemma fsub_1_08:
  "fsub (Fin 1) (Fin (3602879701896397 / 4503599627370496))
     = Fin (900719925474099 / 4503599627370496)"
  unfolding fsub_def fadd_def
  by (simp, subst round_double_normal [where e = "- 3"]) (simp_all add: float_eval)

lemma fmul_30_1: "fmul (Fin 30) (Fin 1) = Fin 30"
  unfolding fmul_def
  by (simp, subst round_double_normal [where e = 4]) (simp_all add: float_eval)

lemma fmul_30_06: "fmul (Fin 30) (Fin (5404319552844595 / 9007199254740992)) = Fin 18"
  unfolding fmul_def
  by (simp, subst round_double_normal [where e = 4]) (simp_all add: float_eval)

lemma fmul_30_02:
  "fmul (Fin 30) (Fin (900719925474099 / 4503599627370496))
     = Fin (3377699720527871 / 562949953421312)"
  unfolding fmul_def
  by (simp, subst round_double_normal [where e = 2]) (simp_all add: float_eval)

lemma float_lit_08: "float_lit (4 / 5) = Fin (3602879701896397 / 4503599627370496)"
  unfolding float_lit_def
  by (subst round_double_normal [where e = "- 1"]) (simp_all add: float_eval)

lemma float_lit_04': "float_lit (4 / 10) = Fin (3602879701896397 / 9007199254740992)"
  using float_lit_04 by simp

lemma float_lit_06': "float_lit (6 / 10) = Fin (5404319552844595 / 9007199254740992)"
  using float_lit_06 by simp

lemma float_lit_08': "float_lit (8 / 10) = Fin (3602879701896397 / 4503599627370496)"
  using float_lit_08 by simp

lemmas float_lits =
  float_lit_0 float_lit_04 float_lit_04' float_lit_06 float_lit_06' float_lit_08 float_lit_08'
  float_of_int_1 float_of_int_5 float_of_int_30 float_of_int_85

section \<open>The rule-based prediction\<close>

lemma remaining_days_0: "remaining_days_of (Fin 0) = Inr 30"
  by (simp add: remaining_days_of_def float_lits fsub_1_0 fmul_30_1 py_int_def)

lemma remaining_days_04:
  "remaining_days_of (Fin (3602879701896397 / 9007199254740992)) = Inr 18"
  by (simp add: remaining_days_of_def float_lits fsub_1_04 fmul_30_06 py_int_def)

lemma remaining_days_08:
  "remaining_days_of (Fin (3602879701896397 / 4503599627370496)) = Inr 5"
  by (simp add: remaining_days_of_def float_lits fsub_1_08 fmul_30_02 py_int_def
        floor_rat_numeral_div)

lemma action_of_0: "action_of (Fin 0) = ''monitor''"
  by (simp add: action_of_def float_lits fgt_def flt_def)

lemma action_of_04: "action_of (Fin (3602879701896397 / 9007199254740992)) = ''monitor''"
  by (simp add: action_of_def float_lits fgt_def flt_def)

lemma action_of_08: "action_of (Fin (3602879701896397 / 4503599627370496)) = ''maintenance''"
  by (simp add: action_of_def float_lits fgt_def flt_def)

lemma rule_based_probability_cases:
  "rule_based_probability t v =
     (if fgt t (Fin 85) \<and> fgt v (Fin 5) then Fin (3602879701896397 / 4503599627370496)
      else if fgt t (Fin 85) \<or> fgt v (Fin 5) then Fin (3602879701896397 / 9007199254740992)
      else Fin 0)"
  by (simp add: rule_based_probability_def Let_def float_lits fadd_0_04 fadd_04_04)

lemmas rule_based_eval =
  run_prediction_def Let_def rule_based_probability_cases remaining_days_0 remaining_days_04
  remaining_days_08 action_of_0 action_of_04 action_of_08 float_lit_04 float_lit_04'
  float_lit_08 float_lit_08'

text \<open>
  Claim C3, as amended. With no trained model, the prediction endpoint applies the rule
  \<open>p = 0.4\<cdot>[temperature > 85] + 0.4\<cdot>[vibration > 5]\<close>,
  \<open>remaining_days = int(30 * (1 - p))\<close> and \<open>recommended_action = "maintenance"\<close>
  iff \<open>p > 0.6\<close>, all in binary64 arithmetic, as a function of the readings alone: the
  probability is the float \<open>0.0\<close>, \<open>0.4\<close> or \<open>0.8\<close>, and the days are 30, 18 or 5. For
  \<open>p = 0.8\<close> the float product \<open>30 * (1 - 0.8)\<close> is \<open>5.999999999999998\<close>, which
  \<open>int\<close> truncates to 5.
\<close>

theorem rule_based_fallback:
  assumes "eid \<in> set equipment_db"
  shows "let hot = fgt (readings_get readings ''temperature'' 70) (Fin 85);
             shaky = fgt (readings_get readings ''vibration'' 3) (Fin 5)
         in run_prediction equipment_db None eid readings =
            Inr \<lparr>resp_equipment_id = eid,
                 resp_prediction =
                   \<lparr>failure_probability =
                        (if hot \<and> shaky then float_lit (8 / 10)
                         else if hot \<or> shaky then float_lit (4 / 10) else Fin 0),
                      remaining_useful_life_days =
                        (if hot \<and> shaky then 5 else if hot \<or> shaky then 18 else 30),
                      recommended_action =
                        (if hot \<and> shaky then ''maintenance'' else ''monitor''),
                      confidence = float_lit (7 / 10)\<rparr>,
                 resp_note = Some ''Using rule-based prediction (no trained model found)''\<rparr>"
  using assms by (simp add: rule_based_eval)

text \<open>
  Claim C3, as stated, fails: for temperature 90 and vibration 6 the endpoint returns
  probability \<open>0.8\<close> and \<open>"maintenance"\<close>, but 5 remaining days, not 6.
\<close>

theorem run_prediction_90_6_gives_5_days:
  "run_prediction [''PUMP001''] None ''PUMP001'' [(''temperature'', Fin 90), (''vibration'', Fin 6)]
     = Inr \<lparr>resp_equipment_id = ''PUMP001'',
            resp_prediction =
              \<lparr>failure_probability = float_lit (8 / 10),
                 remaining_useful_life_days = 5,
                 recommended_action = ''maintenance'',
                 confidence = float_lit (7 / 10)\<rparr>,
            resp_note = Some ''Using rule-based prediction (no trained model found)''\<rparr>"
  by (simp add: rule_based_eval readings_get_def dict_get_def fgt_def flt_def)

theorem rule_based_fallback_witness:
  "''PUMP001'' \<in> set [''PUMP001'']
   \<and> run_prediction [''PUMP001''] None ''PUMP001'' [(''temperature'', Fin 90), (''vibration'', Fin 2)]
     = Inr \<lparr>resp_equipment_id = ''PUMP001'',
            resp_prediction =
              \<lparr>failure_probability = float_lit (4 / 10),
                 remaining_useful_life_days = 18,
                 recommended_action = ''monitor'',
                 confidence = float_lit (7 / 10)\<rparr>,
            resp_note = Some ''Using rule-based prediction (no trained model found)''\<rparr>"
  using rule_based_fallback [of "''PUMP001''" "[''PUMP001'']"
          "[(''temperature'', Fin 90), (''vibration'', Fin 2)]"]
  by (simp add: Let_def readings_get_def dict_get_def fgt_def flt_def)

section \<open>Register decoding\<close>

lemma tobytes_little: "tobytes_H Little [17530, 0] = [122, 68, 0, 0]"
  by simp

lemma decode_little: "decode_ieee Little 0x447A 0x0000 = Inr (Fin (12845056 * 2 ^ 94))"
  by (simp add: decode_ieee_def float32_value_def pow2_def Let_def)

lemma decode_big: "decode_ieee Big 0x447A 0x0000 = Inr (Fin 1000)"
  by (simp add: decode_ieee_def float32_value_def pow2_def Let_def)

lemma fmul_1000_1: "fmul (Fin 1000) (Fin 1) = Fin 1000"
  unfolding fmul_def
  by (simp, subst round_double_normal [where e = 9]) (simp_all add: float_eval)

lemma fmul_huge_1:
  "fmul (Fin 254422546068206553797994320131784704) (Fin 1)
     = Fin 254422546068206553797994320131784704"
  unfolding fmul_def
  by (simp, subst round_double_normal [where e = 117]) (simp_all add: float_eval)

text \<open>
  Claim C2. Decoding a register pair of data type float rebuilds the big-endian IEEE-754
  single from the two 16-bit words, so that \<open>[0x447A, 0x0000]\<close> with scaling \<open>1.0\<close> gives
  \<open>1000.0\<close>. \<open>_decode_ieee\<close> unpacks big-endian (\<open>'>f'\<close>), but builds the bytes with
  \<open>array.array('H', ...).tobytes()\<close>, which writes each word in the byte order of the
  host: on a little-endian host the two bytes of every word are swapped, and the pair
  decodes to \<open>0x7A440000\<close>, that is \<open>12845056 \<cdot> 2\<^sup>9\<^sup>4\<close> (about \<open>2.54e35\<close>); only on a
  big-endian host is it \<open>1000.0\<close>.
\<close>

theorem decode_ieee_447A_on_little_endian_host:
  "decode_ieee Little 0x447A 0x0000 = Inr (Fin (12845056 * 2 ^ 94))
   \<and> decode_registers Little ''float'' [0x447A, 0x0000] (PFloat (Fin 1))
       = Inr (PFloat (Fin (12845056 * 2 ^ 94)))
   \<and> decode_ieee Big 0x447A 0x0000 = Inr (Fin 1000)
   \<and> decode_registers Big ''float'' [0x447A, 0x0000] (PFloat (Fin 1)) = Inr (PFloat (Fin 1000))"
  using decode_little decode_big
  by (simp add: decode_registers_def fmul_1000_1 fmul_huge_1)

lemma float_of_int_17530: "float_of_int 17530 = Fin 17530"
  unfolding float_of_int_def
  by (subst round_double_normal [where e = 14]) (simp_all add: float_eval)

lemma fmul_17530_1: "fmul (Fin 17530) (Fin 1) = Fin 17530"
  unfolding fmul_def
  by (simp, subst round_double_normal [where e = 14]) (simp_all add: float_eval)

text \<open>
  Claim C5, as stated, fails: an entry of data type \<open>float\<close> with count 1, for which the
  device returns the one register \<open>0x447A\<close>, is not skipped and nothing is logged; the
  field gets the first word times the scaling, \<open>17530.0\<close>.
\<close>

theorem float_with_count_1_is_not_skipped:
  "read_register Little (one_register_client 0x447A) ''temperature'' float_count_1
     = ([], Inr (Some (PFloat (Fin 17530))))"
  by (simp add: read_register_def one_register_client_def float_count_1_def Let_def
        decode_registers_def py_index_def int_to_float_def float_of_int_17530 fmul_17530_1)

text \<open>
  Claim C5, as amended. For a holding or input entry of any data type (\<open>float\<close> and
  \<open>int32\<close> included) whose read returns one register, the decoding is not skipped and no
  warning is logged: the value of the field is the first word times the scaling. When the
  read returns no register at all, \<open>registers[0]\<close> raises \<open>IndexError\<close>, which leaves
  \<open>_read_once\<close>.
\<close>

theorem short_register_read_decodes_first_word:
  assumes "rt = ''holding'' \<or> rt = ''input''"
      and "config = \<lparr>reg_type = Some rt, address = Some a, count = Some c,
                       data_type = Some dt, scaling = Some sc\<rparr>"
  shows "(read_registers client rt a c = Result [r] \<longrightarrow>
            read_register bo client name config
              = ([], case py_mul (PInt r) sc of Inl e \<Rightarrow> Inl e | Inr v \<Rightarrow> Inr (Some v)))
       \<and> (read_registers client rt a c = Result [] \<longrightarrow>
            read_register bo client name config = ([], Inl IndexError))"
  using assms
  by (auto simp: read_register_def Let_def decode_registers_def py_index_def split: sum.splits)

theorem short_register_read_decodes_first_word_witness:
  "(''holding'' = ''holding'' \<or> ''holding'' = ''input'')
   \<and> read_registers (one_register_client 0x447A) ''holding'' 0 1 = Result [0x447A]
   \<and> read_register Big (one_register_client 0x447A) ''temperature'' float_count_1
        = ([], Inr (Some (PFloat (Fin 17530))))"
  using short_register_read_decodes_first_word
          [where rt = "''holding''" and config = float_count_1 and a = 0 and c = 1
             and dt = "''float''" and sc = "PFloat (Fin 1)"
             and client = "one_register_client 0x447A" and r = "0x447A" and bo = Big
             and name = "''temperature''"]
  by (simp add: one_register_client_def float_count_1_def int_to_float_def
        float_of_int_17530 fmul_17530_1)

section \<open>Properties of process\_reading\<close>

lemma dict_set_keys: "fst ` set (dict_set k v d) = insert k (fst ` set d)"
  by (simp add: dict_set_def update_keys image_iff) (auto simp: dom_update)

lemma dict_update_lookup:
  "map_of (dict_update d e) = map_of d ++ map_of (rev e)"
  unfolding dict_update_def dict_set_def
proof (induction e arbitrary: d)
  case Nil
  then show ?case by simp
next
  case (Cons p e)
  obtain k v where p: "p = (k, v)" by (cases p)
  show ?case
    by (simp add: p Cons.IH update_conv' fun_eq_iff map_add_def split: option.splits)
qed

lemma map_of_rev_distinct:
  "distinct (map fst e) \<Longrightarrow> map_of (rev e) = map_of e"
  by (subst map_of_inject_set) (simp_all add: rev_map [symmetric])

lemma dict_get_update:
  "distinct (map fst e) \<Longrightarrow>
   dict_get (dict_update d e) k = (case dict_get e k of Some v \<Rightarrow> Some v | None \<Rightarrow> dict_get d k)"
  by (simp add: dict_get_def dict_update_lookup map_add_def map_of_rev_distinct
           split: option.splits)

text \<open>
  Claim C9. For every connector and every raw data map \<open>d\<close>, the reading that
  \<open>process_reading\<close> builds (stored as \<open>last_reading\<close>, handed to the callback and
  returned) always has the keys \<open>equipment_id\<close> and \<open>timestamp\<close>; where \<open>d\<close> itself has one
  of these keys, the value of \<open>d\<close> replaces the connector's own equipment id or the
  acquisition timestamp, and otherwise the connector's value is kept.
\<close>

theorem process_reading_keys_override:
  assumes "distinct (map fst d)"
      and "process_reading self now (DictData d) = (self', res)"
  shows "\<exists>r. last_reading self' = Some r \<and> (res = Inr r \<or> (\<exists>e. res = Inl e))
           \<and> dict_get r ''equipment_id'' \<noteq> None \<and> dict_get r ''timestamp'' \<noteq> None
           \<and> dict_get r ''equipment_id'' =
                (case dict_get d ''equipment_id'' of
                   Some v \<Rightarrow> Some v | None \<Rightarrow> Some (PStr (equipment_id self)))
           \<and> dict_get r ''timestamp'' =
                (case dict_get d ''timestamp'' of
                   Some v \<Rightarrow> Some v | None \<Rightarrow> Some (PStr now))"
  using assms
  by (auto simp: process_reading_def build_reading_def Let_def dict_get_update
           split: option.splits)
     (auto simp: dict_get_def)

theorem process_reading_keys_override_witness:
  "distinct (map fst [(''equipment_id'', PStr ''MOTOR003''), (''temperature'', PFloat (Fin 70))])
   \<and> (\<exists>r. last_reading (fst (process_reading
          \<lparr>equipment_id = ''PUMP001'', connected = True, last_reading = None,
             callback = None, loop = False\<rparr>
          ''2024-01-01T00:00:00''
          (DictData [(''equipment_id'', PStr ''MOTOR003''), (''temperature'', PFloat (Fin 70))]))) = Some r
        \<and> dict_get r ''equipment_id'' = Some (PStr ''MOTOR003'')
        \<and> dict_get r ''timestamp'' = Some (PStr ''2024-01-01T00:00:00''))"
proof -
  let ?d = "[(''equipment_id'', PStr ''MOTOR003''), (''temperature'', PFloat (Fin 70))]"
  let ?self = "\<lparr>equipment_id = ''PUMP001'', connected = True, last_reading = None,
                  callback = None, loop = False\<rparr>"
  have d: "distinct (map fst ?d)" by simp
  obtain self' res
    where p: "process_reading ?self ''2024-01-01T00:00:00'' (DictData ?d) = (self', res)"
    by (cases "process_reading ?self ''2024-01-01T00:00:00'' (DictData ?d)")
  from process_reading_keys_override [OF d p] p d show ?thesis
    by (auto simp: dict_get_def)
qed

section \<open>Partial reads of the register map\<close>

lemma dict_set_lookup: "map_of (dict_set k v d) = (map_of d)(k \<mapsto> v)"
  by (simp add: dict_set_def update_conv')

lemma dict_set_distinct: "distinct (map fst d) \<Longrightarrow> distinct (map fst (dict_set k v d))"
  by (simp add: dict_set_def distinct_update)

lemma loop_no_raise:
  assumes "\<forall>(n, c) \<in> set regs. \<not> raises bo client n c" and "distinct (map fst regs)"
  shows "\<exists>lg readings. read_registers_loop bo client regs acc = (lg, Inr readings)
           \<and> (distinct (map fst acc) \<longrightarrow> distinct (map fst readings))
           \<and> (\<forall>k. map_of readings k =
                  (case (case map_of regs k of Some c \<Rightarrow> decoded bo client k c | None \<Rightarrow> None) of
                     Some v \<Rightarrow> Some v | None \<Rightarrow> map_of acc k))"
  using assms
proof (induction regs arbitrary: acc)
  case Nil
  then show ?case by simp
next
  case (Cons p regs)
  obtain n c where p: "p = (n, c)" by (cases p)
  from Cons.prems p have nr: "\<not> raises bo client n c"
    and rest: "\<forall>(n, c) \<in> set regs. \<not> raises bo client n c"
    and fresh: "map_of regs n = None" and dist: "distinct (map fst regs)"
    by (auto simp: map_of_eq_None_iff)
  obtain lg res where r0: "read_register bo client n c = (lg, res)"
    by (cases "read_register bo client n c")
  with nr have "\<not> isl res" by (simp add: raises_def)
  then obtain x where "res = Inr x" by (cases res) auto
  with r0 have r: "read_register bo client n c = (lg, Inr x)" by simp
  show ?case
  proof (cases x)
    case None
    from Cons.IH [OF rest dist, of acc] obtain lg' readings
      where l: "read_registers_loop bo client regs acc = (lg', Inr readings)"
        and d: "distinct (map fst acc) \<longrightarrow> distinct (map fst readings)"
        and m: "\<forall>k. map_of readings k =
                  (case (case map_of regs k of Some c \<Rightarrow> decoded bo client k c | None \<Rightarrow> None) of
                     Some v \<Rightarrow> Some v | None \<Rightarrow> map_of acc k)"
      by blast
    from r None have dn: "decoded bo client n c = None" by (simp add: decoded_def)
    have eq: "read_registers_loop bo client (p # regs) acc = (lg @ lg', Inr readings)"
      using p r None l by simp
    have "map_of readings k =
            (case (case map_of (p # regs) k of Some c \<Rightarrow> decoded bo client k c | None \<Rightarrow> None) of
               Some v \<Rightarrow> Some v | None \<Rightarrow> map_of acc k)" for k
    proof (cases "k = n")
      case True
      with m fresh dn p show ?thesis by (simp split: option.splits)
    next
      case False
      with m p show ?thesis by simp
    qed
    with eq d show ?thesis by blast
  next
    case (Some v)
    from Cons.IH [OF rest dist, of "dict_set n v acc"] obtain lg' readings
      where l: "read_registers_loop bo client regs (dict_set n v acc) = (lg', Inr readings)"
        and d: "distinct (map fst (dict_set n v acc)) \<longrightarrow> distinct (map fst readings)"
        and m: "\<forall>k. map_of readings k =
                  (case (case map_of regs k of Some c \<Rightarrow> decoded bo client k c | None \<Rightarrow> None) of
                     Some v \<Rightarrow> Some v | None \<Rightarrow> map_of (dict_set n v acc) k)"
      by blast
    from r Some have dn: "decoded bo client n c = Some v" by (simp add: decoded_def)
    have eq: "read_registers_loop bo client (p # regs) acc = (lg @ lg', Inr readings)"
      using p r Some l by simp
    have d': "distinct (map fst acc) \<longrightarrow> distinct (map fst readings)"
      using d dict_set_distinct [of acc n v] by blast
    have "map_of readings k =
            (case (case map_of (p # regs) k of Some c \<Rightarrow> decoded bo client k c | None \<Rightarrow> None) of
               Some v \<Rightarrow> Some v | None \<Rightarrow> map_of acc k)" for k
    proof (cases "k = n")
      case True
      with m fresh dn p show ?thesis by (simp add: dict_set_lookup split: option.splits)
    next
      case False
      with m p show ?thesis by (simp add: dict_set_lookup split: option.splits)
    qed
    with eq d' show ?thesis by blast
  qed
qed

lemma loop_raise:
  assumes "\<exists>(n, c) \<in> set regs. raises bo client n c"
  shows "\<exists>lg e. read_registers_loop bo client regs acc = (lg, Inl e)"
  using assms
proof (induction regs arbitrary: acc)
  case Nil
  then show ?case by simp
next
  case (Cons p regs)
  obtain n c where p: "p = (n, c)" by (cases p)
  obtain lg res where r: "read_register bo client n c = (lg, res)"
    by (cases "read_register bo client n c")
  show ?case
  proof (cases res)
    case (Inl e)
    with p r show ?thesis by simp
  next
    case (Inr x)
    with r have "\<not> raises bo client n c" by (simp add: raises_def)
    with Cons.prems p have "\<exists>(n, c) \<in> set regs. raises bo client n c" by auto
    note ih = Cons.IH [OF this]
    show ?thesis
    proof (cases x)
      case None
      from ih [of acc] obtain lg' e
        where "read_registers_loop bo client regs acc = (lg', Inl e)" by blast
      with p r Inr None show ?thesis by simp
    next
      case (Some v)
      from ih [of "dict_set n v acc"] obtain lg' e
        where "read_registers_loop bo client regs (dict_set n v acc) = (lg', Inl e)" by blast
      with p r Inr Some show ?thesis by simp
    qed
  qed
qed

lemma read_register_unfold:
  "read_register bo client name config =
     (if register_type_of config = ''holding'' \<or> register_type_of config = ''input'' then
        (case read_registers client (register_type_of config)
                (case address config of Some a \<Rightarrow> a | None \<Rightarrow> 0)
                (case count config of Some c \<Rightarrow> c | None \<Rightarrow> 1) of
           Raises e \<Rightarrow> ([], Inl e)
         | IsError \<Rightarrow> ([(ERROR, ''Error reading register'')], Inr None)
         | Result registers \<Rightarrow>
             (case decode_registers bo (case data_type config of Some d \<Rightarrow> d | None \<Rightarrow> ''float'')
                     registers (case scaling config of Some s \<Rightarrow> s | None \<Rightarrow> PFloat (Fin 1)) of
                Inl e \<Rightarrow> ([], Inl e)
              | Inr v \<Rightarrow> ([], Inr (Some v))))
      else if register_type_of config = ''coil'' \<or> register_type_of config = ''discrete'' then
        (case read_bits client (register_type_of config)
                (case address config of Some a \<Rightarrow> a | None \<Rightarrow> 0)
                (case count config of Some c \<Rightarrow> c | None \<Rightarrow> 1) of
           Raises e \<Rightarrow> ([], Inl e)
         | IsError \<Rightarrow> ([(ERROR, ''Error reading register'')], Inr None)
         | Result bits \<Rightarrow>
             (case py_index bits 0 of
                Inl e \<Rightarrow> ([], Inl e)
              | Inr b \<Rightarrow> ([], Inr (Some (PBool b)))))
      else ([(WARNING, ''Unknown register type'')], Inr None))"
  unfolding read_register_def register_type_of_def Let_def ..

lemma read_register_outcome:
  "(unknown_type c \<or> is_error client c \<longrightarrow> snd (read_register bo client n c) = Inr None)
   \<and> (read_fails bo client c \<longleftrightarrow> isl (snd (read_register bo client n c)))
   \<and> (\<not> unknown_type c \<and> \<not> is_error client c \<and> \<not> read_fails bo client c \<longrightarrow>
        (\<exists>v. snd (read_register bo client n c) = Inr (Some v)))"
proof -
  consider (holding) "register_type_of c = ''holding''"
    | (input) "register_type_of c = ''input''"
    | (coil) "register_type_of c = ''coil''"
    | (discrete) "register_type_of c = ''discrete''"
    | (unknown) "register_type_of c \<noteq> ''holding''" "register_type_of c \<noteq> ''input''"
        "register_type_of c \<noteq> ''coil''" "register_type_of c \<noteq> ''discrete''"
    by blast
  then show ?thesis
  proof cases
    case holding
    then show ?thesis
    by (simp add: read_register_unfold unknown_type_def is_error_def read_fails_def Let_def
          py_index_def split: response.splits sum.splits)
  next
    case input
    then show ?thesis
    by (simp add: read_register_unfold unknown_type_def is_error_def read_fails_def Let_def
          py_index_def split: response.splits sum.splits)
  next
    case coil
    then show ?thesis
    by (simp add: read_register_unfold unknown_type_def is_error_def read_fails_def Let_def
          py_index_def split: response.splits sum.splits)
  next
    case discrete
    then show ?thesis
    by (simp add: read_register_unfold unknown_type_def is_error_def read_fails_def Let_def
          py_index_def split: response.splits sum.splits)
  next
    case unknown
    then show ?thesis
    by (simp add: read_register_unfold unknown_type_def is_error_def read_fails_def Let_def
          py_index_def split: response.splits sum.splits)
  qed
qed

lemma read_register_fails: "raises bo client n c = read_fails bo client c"
  using read_register_outcome [of c client bo n] by (simp add: raises_def)

lemma read_register_skipped:
  assumes "unknown_type c \<or> is_error client c"
  shows "\<not> raises bo client n c \<and> decoded bo client n c = None"
  using assms read_register_outcome [of c client bo n] by (simp add: raises_def decoded_def)

lemma read_register_skips:
  assumes "\<not> raises bo client n c"
  shows "decoded bo client n c = None \<longleftrightarrow> unknown_type c \<or> is_error client c"
proof
  assume "decoded bo client n c = None"
  with assms read_register_outcome [of c client bo n] show "unknown_type c \<or> is_error client c"
    by (auto simp: raises_def decoded_def)
next
  assume "unknown_type c \<or> is_error client c"
  from read_register_skipped [OF this] show "decoded bo client n c = None" by simp
qed

text \<open>
  Claim C4, as amended. An entry of unknown register type, or whose response is an error
  response, is skipped: it does not raise and only its field is missing; these are the
  only entries that are skipped. In a read of the register map in which no entry raises,
  the Reading is built with every field that decoded, on top of the equipment id and the
  timestamp, also when no field decoded at all; it is stored and handed to the callback,
  and it is returned unless the callback raises. When the read or the decoding of some
  entry raises (the client raises, the response carries no item, or the decoding of the
  registers fails), no Reading is built, whatever the other entries decoded.
\<close>

theorem modbus_read_once_partial_success:
  assumes "distinct (map fst registers)"
  shows "((\<forall>(n, c) \<in> set registers. \<not> raises bo client n c) \<longrightarrow>
           (\<exists>self' lg res r. modbus_read_once bo client now registers self = (self', lg, res)
              \<and> last_reading self' = Some r
              \<and> res = (case (case callback self of None \<Rightarrow> None | Some cb \<Rightarrow> cb r) of
                         None \<Rightarrow> Inr [r] | Some e \<Rightarrow> Inl e)
              \<and> (\<forall>k. dict_get r k =
                   (case (case dict_get registers k of
                            Some c \<Rightarrow> decoded bo client k c | None \<Rightarrow> None) of
                      Some v \<Rightarrow> Some v | None \<Rightarrow> dict_get (base_reading self now) k))))
       \<and> ((\<exists>(n, c) \<in> set registers. raises bo client n c) \<longrightarrow>
           (\<exists>lg e. modbus_read_once bo client now registers self = (self, lg, Inl e)))
       \<and> (\<forall>n c. raises bo client n c = read_fails bo client c)
       \<and> (\<forall>n c. unknown_type c \<or> is_error client c \<longrightarrow>
                  \<not> raises bo client n c \<and> decoded bo client n c = None)
       \<and> (\<forall>n c. \<not> raises bo client n c \<and> decoded bo client n c = None \<longrightarrow>
                  unknown_type c \<or> is_error client c)"
proof (intro conjI impI allI)
  assume "\<forall>(n, c) \<in> set registers. \<not> raises bo client n c"
  from loop_no_raise [OF this assms(1), where acc = "[]"] obtain lg readings
    where l: "read_registers_loop bo client registers [] = (lg, Inr readings)"
      and d0: "distinct (map fst ([] :: pyval pydict)) \<longrightarrow> distinct (map fst readings)"
      and m: "\<forall>k. map_of readings k =
                (case (case map_of registers k of
                         Some c \<Rightarrow> decoded bo client k c | None \<Rightarrow> None) of
                   Some v \<Rightarrow> Some v | None \<Rightarrow> map_of ([] :: pyval pydict) k)"
    by blast
  from d0 have d: "distinct (map fst readings)" by simp
  let ?r = "build_reading (equipment_id self) now (DictData readings)"
  let ?res = "case (case callback self of None \<Rightarrow> None | Some cb \<Rightarrow> cb ?r) of
                None \<Rightarrow> Inr [?r] | Some e \<Rightarrow> Inl e"
  have "modbus_read_once bo client now registers self
          = (self\<lparr>last_reading := Some ?r\<rparr>, lg, ?res)"
    using l by (simp add: modbus_read_once_def process_reading_def Let_def split: option.splits)
  moreover have "dict_get ?r k =
      (case (case dict_get registers k of Some c \<Rightarrow> decoded bo client k c | None \<Rightarrow> None) of
         Some v \<Rightarrow> Some v | None \<Rightarrow> dict_get (base_reading self now) k)" for k
  proof -
    have a: "dict_get ?r k =
        (case dict_get readings k of
           Some v \<Rightarrow> Some v | None \<Rightarrow> dict_get (base_reading self now) k)"
      unfolding build_reading_def base_reading_def by (simp add: dict_get_update [OF d])
    have b: "dict_get readings k =
        (case dict_get registers k of Some c \<Rightarrow> decoded bo client k c | None \<Rightarrow> None)"
      using m [rule_format, of k] by (simp add: dict_get_def split: option.splits)
    show ?thesis unfolding a b ..
  qed
  ultimately show "\<exists>self' lg res r.
        modbus_read_once bo client now registers self = (self', lg, res)
      \<and> last_reading self' = Some r
      \<and> res = (case (case callback self of None \<Rightarrow> None | Some cb \<Rightarrow> cb r) of
                 None \<Rightarrow> Inr [r] | Some e \<Rightarrow> Inl e)
      \<and> (\<forall>k. dict_get r k =
             (case (case dict_get registers k of
                      Some c \<Rightarrow> decoded bo client k c | None \<Rightarrow> None) of
                Some v \<Rightarrow> Some v | None \<Rightarrow> dict_get (base_reading self now) k))"
    by (intro exI [of _ "self\<lparr>last_reading := Some ?r\<rparr>"] exI [of _ lg] exI [of _ ?res]
          exI [of _ ?r]) simp
next
  assume "\<exists>(n, c) \<in> set registers. raises bo client n c"
  from loop_raise [OF this, of "[]"]
  show "\<exists>lg e. modbus_read_once bo client now registers self = (self, lg, Inl e)"
    by (auto simp: modbus_read_once_def)
next
  fix n c
  show "raises bo client n c = read_fails bo client c" by (rule read_register_fails)
next
  fix n c
  assume "unknown_type c \<or> is_error client c"
  from read_register_skipped [OF this] show "\<not> raises bo client n c" by simp
next
  fix n c
  assume "unknown_type c \<or> is_error client c"
  from read_register_skipped [OF this] show "decoded bo client n c = None" by simp
next
  fix n c
  assume "\<not> raises bo client n c \<and> decoded bo client n c = None"
  with read_register_skips [of bo client n c] show "unknown_type c \<or> is_error client c" by simp
qed

lemma read_int16_at_0: "read_register bo (flaky_client bad) n (int16_at 0) = ([], Inr (Some (PInt 7)))"
  by (simp add: read_register_def flaky_client_def int16_at_def Let_def decode_registers_def
        py_index_def)

lemma read_unknown_kind:
  "read_register bo client n unknown_kind = ([(WARNING, ''Unknown register type'')], Inr None)"
  by (simp add: read_register_def unknown_kind_def Let_def)

text \<open>
  Claim C4, as stated, fails: with two entries of which the first decodes (the word 7),
  a second entry whose response carries no register (\<open>registers[0]\<close> raises
  \<open>IndexError\<close>), or whose read raises, ends \<open>_read_once\<close>: no Reading is emitted,
  although one field had decoded.
\<close>

theorem failing_register_drops_whole_reading:
  "modbus_read_once Little (flaky_client (Result [])) ''t''
       [(''temperature'', int16_at 0), (''pressure'', int16_at 1)] pump
     = (pump, [], Inl IndexError)
   \<and> modbus_read_once Little (flaky_client (Raises ClientError)) ''t''
       [(''temperature'', int16_at 0), (''pressure'', int16_at 1)] pump
     = (pump, [], Inl ClientError)
   \<and> decoded Little (flaky_client (Result [])) ''temperature'' (int16_at 0) = Some (PInt 7)
   \<and> decoded Little (flaky_client (Raises ClientError)) ''temperature'' (int16_at 0)
     = Some (PInt 7)"
  by (simp add: modbus_read_once_def read_int16_at_0 decoded_def)
     (simp add: read_register_def flaky_client_def int16_at_def Let_def decode_registers_def
        py_index_def)

text \<open>
  A device that answers the read at address 0 with the word 7 and every other read with an
  error response, and three entries: \<open>temperature\<close> at address 0, \<open>pressure\<close> at address
  1, and \<open>flow\<close> of an unknown register type. The Reading has the temperature and lacks the
  two others; with the entry \<open>pressure\<close> alone it is emitted with no field at all; and
  with a callback that raises it is built and stored, and the exception leaves
  \<open>_read_once\<close>.
\<close>

theorem modbus_read_once_partial_success_witness:
  "(\<exists>self' lg r. modbus_read_once Little (flaky_client IsError) ''t''
           [(''temperature'', int16_at 0), (''pressure'', int16_at 1), (''flow'', unknown_kind)]
           pump = (self', lg, Inr [r])
        \<and> dict_get r ''temperature'' = Some (PInt 7)
        \<and> dict_get r ''pressure'' = None
        \<and> dict_get r ''flow'' = None
        \<and> dict_get r ''equipment_id'' = Some (PStr ''PUMP001''))
   \<and> (\<exists>self' lg r. modbus_read_once Little (flaky_client IsError) ''t''
           [(''pressure'', int16_at 1)] pump = (self', lg, Inr [r])
        \<and> dict_get r ''pressure'' = None
        \<and> dict_get r ''equipment_id'' = Some (PStr ''PUMP001''))
   \<and> (\<exists>self' lg r. modbus_read_once Little (flaky_client IsError) ''t''
           [(''temperature'', int16_at 0), (''pressure'', int16_at 1)] failing_sink
           = (self', lg, Inl CallbackError)
        \<and> last_reading self' = Some r
        \<and> dict_get r ''temperature'' = Some (PInt 7)
        \<and> dict_get r ''pressure'' = None)"
proof -
  let ?c = "flaky_client IsError"
  let ?three = "[(''temperature'', int16_at 0), (''pressure'', int16_at 1), (''flow'', unknown_kind)]"
  let ?two = "[(''temperature'', int16_at 0), (''pressure'', int16_at 1)]"
  let ?one = "[(''pressure'', int16_at 1)]"
  have d3: "distinct (map fst ?three)" and d2: "distinct (map fst ?two)"
    and d1: "distinct (map fst ?one)"
    by simp_all
  have ie: "is_error ?c (int16_at 1)"
    by (simp add: is_error_def register_type_of_def int16_at_def flaky_client_def Let_def)
  have uk: "unknown_type unknown_kind"
    by (simp add: unknown_type_def register_type_of_def unknown_kind_def)
  have t: "\<not> raises Little ?c ''temperature'' (int16_at 0)"
    and v: "decoded Little ?c ''temperature'' (int16_at 0) = Some (PInt 7)"
    by (simp_all add: raises_def decoded_def read_int16_at_0)
  from modbus_read_once_partial_success [OF d3, where bo = Little and client = ?c] ie
  have p: "\<not> raises Little ?c ''pressure'' (int16_at 1)"
    and pd: "decoded Little ?c ''pressure'' (int16_at 1) = None"
    by blast+
  from modbus_read_once_partial_success [OF d3, where bo = Little and client = ?c] uk
  have u: "\<not> raises Little ?c ''flow'' unknown_kind"
    and ud: "decoded Little ?c ''flow'' unknown_kind = None"
    by blast+
  have n3: "\<forall>(n, c) \<in> set ?three. \<not> raises Little ?c n c"
    and n2: "\<forall>(n, c) \<in> set ?two. \<not> raises Little ?c n c"
    and n1: "\<forall>(n, c) \<in> set ?one. \<not> raises Little ?c n c"
    using t p u by simp_all
  have cp: "callback pump = None" by (simp add: pump_def)
  have cf: "callback failing_sink = Some (\<lambda>r. Some CallbackError)"
    by (simp add: failing_sink_def)
  from modbus_read_once_partial_success
         [OF d3, where bo = Little and client = ?c and now = "''t''" and self = pump] n3
  obtain s3 l3 res3 r3
    where r3: "modbus_read_once Little ?c ''t'' ?three pump = (s3, l3, res3)"
      and e3: "res3 = (case (case callback pump of None \<Rightarrow> None | Some cb \<Rightarrow> cb r3) of
                         None \<Rightarrow> Inr [r3] | Some e \<Rightarrow> Inl e)"
      and k3: "\<forall>k. dict_get r3 k =
                (case (case dict_get ?three k of Some c \<Rightarrow> decoded Little ?c k c | None \<Rightarrow> None) of
                   Some v \<Rightarrow> Some v | None \<Rightarrow> dict_get (base_reading pump ''t'') k)"
    by blast
  from e3 cp have "res3 = Inr [r3]" by simp
  moreover from k3 v pd ud have "dict_get r3 ''temperature'' = Some (PInt 7)"
    "dict_get r3 ''pressure'' = None" "dict_get r3 ''flow'' = None"
    "dict_get r3 ''equipment_id'' = Some (PStr ''PUMP001'')"
    by (simp_all add: dict_get_def base_reading_def pump_def)
  ultimately have 3: "\<exists>self' lg r. modbus_read_once Little ?c ''t'' ?three pump = (self', lg, Inr [r])
        \<and> dict_get r ''temperature'' = Some (PInt 7)
        \<and> dict_get r ''pressure'' = None
        \<and> dict_get r ''flow'' = None
        \<and> dict_get r ''equipment_id'' = Some (PStr ''PUMP001'')"
    using r3 by blast
  from modbus_read_once_partial_success
         [OF d1, where bo = Little and client = ?c and now = "''t''" and self = pump] n1
  obtain s1 l1 res1 r1
    where r1: "modbus_read_once Little ?c ''t'' ?one pump = (s1, l1, res1)"
      and e1: "res1 = (case (case callback pump of None \<Rightarrow> None | Some cb \<Rightarrow> cb r1) of
                         None \<Rightarrow> Inr [r1] | Some e \<Rightarrow> Inl e)"
      and k1: "\<forall>k. dict_get r1 k =
                (case (case dict_get ?one k of Some c \<Rightarrow> decoded Little ?c k c | None \<Rightarrow> None) of
                   Some v \<Rightarrow> Some v | None \<Rightarrow> dict_get (base_reading pump ''t'') k)"
    by blast
  from e1 cp have "res1 = Inr [r1]" by simp
  moreover from k1 pd have "dict_get r1 ''pressure'' = None"
    "dict_get r1 ''equipment_id'' = Some (PStr ''PUMP001'')"
    by (simp_all add: dict_get_def base_reading_def pump_def)
  ultimately have 1: "\<exists>self' lg r. modbus_read_once Little ?c ''t'' ?one pump = (self', lg, Inr [r])
        \<and> dict_get r ''pressure'' = None
        \<and> dict_get r ''equipment_id'' = Some (PStr ''PUMP001'')"
    using r1 by blast
  from modbus_read_once_partial_success
         [OF d2, where bo = Little and client = ?c and now = "''t''" and self = failing_sink] n2
  obtain s2 l2 res2 r2
    where r2: "modbus_read_once Little ?c ''t'' ?two failing_sink = (s2, l2, res2)"
      and l2: "last_reading s2 = Some r2"
      and e2: "res2 = (case (case callback failing_sink of None \<Rightarrow> None | Some cb \<Rightarrow> cb r2) of
                         None \<Rightarrow> Inr [r2] | Some e \<Rightarrow> Inl e)"
      and k2: "\<forall>k. dict_get r2 k =
                (case (case dict_get ?two k of Some c \<Rightarrow> decoded Little ?c k c | None \<Rightarrow> None) of
                   Some v \<Rightarrow> Some v | None \<Rightarrow> dict_get (base_reading failing_sink ''t'') k)"
    by blast
  from e2 cf have "res2 = Inl CallbackError" by simp
  moreover from k2 v pd have "dict_get r2 ''temperature'' = Some (PInt 7)"
    "dict_get r2 ''pressure'' = None"
    by (simp_all add: dict_get_def base_reading_def)
  ultimately have 2: "\<exists>self' lg r. modbus_read_once Little ?c ''t'' ?two failing_sink
           = (self', lg, Inl CallbackError)
        \<and> last_reading self' = Some r
        \<and> dict_get r ''temperature'' = Some (PInt 7)
        \<and> dict_get r ''pressure'' = None"
    using r2 l2 by blast
  from 3 1 2 show ?thesis by (intro conjI)
qed

section \<open>Properties of the CSV replay loop\<close>

lemma convert_row_complete:
  "\<forall>c\<in>set row. snd c \<noteq> None \<Longrightarrow> \<exists>d. convert_row pf row acc = Inr d"
  by (induction pf row acc rule: convert_row.induct) (auto split: option.splits)

lemma process_reading_quiet:
  "callback_quiet self \<Longrightarrow>
   \<exists>self' r. process_reading self now data = (self', Inr r) \<and> callback self' = callback self"
  by (auto simp: process_reading_def callback_quiet_def Let_def split: option.splits)

lemma csv_loop_runs:
  assumes "rows \<noteq> []" and "\<forall>row\<in>set rows. \<forall>c\<in>set row. snd c \<noteq> None"
  shows "callback_quiet self \<Longrightarrow> i < length rows \<Longrightarrow>
         \<exists>rs self'. csv_loop pf now rows n i self = (None, rs, self') \<and> length rs = n"
proof (induction n arbitrary: i self)
  case 0
  then show ?case by simp
next
  case (Suc n)
  from Suc.prems(2) have row: "py_index rows i = Inr (rows ! i)" and mem: "rows ! i \<in> set rows"
    by (simp_all add: py_index_def)
  from assms(2) mem obtain d where d: "convert_row pf (rows ! i) [] = Inr d"
    using convert_row_complete by blast
  from process_reading_quiet [OF Suc.prems(1)] obtain self' r
    where p: "process_reading self (now n) (DictData d) = (self', Inr r)"
      and cb: "callback self' = callback self" by blast
  from cb Suc.prems(1) have q: "callback_quiet self'" by (simp add: callback_quiet_def)
  from assms(1) have m: "py_mod (i + 1) (length rows) = Inr ((i + 1) mod length rows)"
    and lt: "(i + 1) mod length rows < length rows"
    by (simp_all add: py_mod_def)
  from Suc.IH [OF q lt] obtain rs self''
    where "csv_loop pf now rows n ((i + 1) mod length rows) self' = (None, rs, self'')"
      and "length rs = n" by blast
  with row d p m show ?case by simp
qed

lemma csv_loop_empty:
  "csv_loop pf now [] (Suc n) i self = (Some IndexError, [], self)"
  by (simp add: py_index_def)

lemma process_reading_callback:
  "process_reading self now data = (self', res) \<Longrightarrow>
   callback self' = callback self \<and>
   (\<forall>e. res = Inl e \<longrightarrow> (\<exists>cb r. callback self = Some cb \<and> cb r = Some e))"
  by (auto simp: process_reading_def Let_def split: option.splits)

lemma csv_loop_in_bounds:
  assumes "rows \<noteq> []"
  shows "i < length rows \<Longrightarrow> csv_loop pf now rows n i self = (Some e, rs, self') \<Longrightarrow>
         raised_by_row_or_callback pf rows self e"
proof (induction n arbitrary: i self rs self')
  case 0
  then show ?case by simp
next
  case (Suc n)
  from Suc.prems(1) have row: "py_index rows i = Inr (rows ! i)" and mem: "rows ! i \<in> set rows"
    by (simp_all add: py_index_def)
  from assms have m: "py_mod (i + 1) (length rows) = Inr ((i + 1) mod length rows)"
    and lt: "(i + 1) mod length rows < length rows"
    by (simp_all add: py_mod_def)
  show ?case
  proof (cases "convert_row pf (rows ! i) []")
    case (Inl e')
    with Suc.prems(2) row mem show ?thesis
      by (auto simp: raised_by_row_or_callback_def)
  next
    case (Inr d)
    obtain s1 res where p: "process_reading self (now n) (DictData d) = (s1, res)"
      by (cases "process_reading self (now n) (DictData d)")
    note cb = process_reading_callback [OF p]
    show ?thesis
    proof (cases res)
      case (Inl e')
      with Suc.prems(2) row Inr p cb show ?thesis
        by (auto simp: raised_by_row_or_callback_def)
    next
      case r: (Inr r)
      obtain res2 rs2 s2
        where l: "csv_loop pf now rows n ((i + 1) mod length rows) s1 = (res2, rs2, s2)"
        by (cases "csv_loop pf now rows n ((i + 1) mod length rows) s1")
      with Suc.prems(2) row Inr p r m have "res2 = Some e" by simp
      with Suc.IH [OF lt] l have "raised_by_row_or_callback pf rows s1 e" by blast
      with cb show ?thesis by (simp add: raised_by_row_or_callback_def)
    qed
  qed
qed

text \<open>
  Claim C10. The replay loop of \<open>CSVFileConnector\<close> needs at least one data row. With one
  row or more, the row index stays inside the list and the advance
  \<open>(row_index + 1) % num_rows\<close> is defined in every iteration: an exception that ends the
  loop can only come from the conversion of a row or from the callback, and with complete
  rows and a callback that does not raise the loop runs every iteration it is given. With
  no data row, the first iteration fails on \<open>rows[row_index]\<close> with \<open>IndexError\<close>, before
  any reading is built, and the thread ends.
\<close>

theorem csv_read_loop_total_iff_rows:
  "(rows \<noteq> [] \<longrightarrow>
      (\<forall>n e rs self'. csv_read_loop pf now rows n self = (Some e, rs, self')
          \<longrightarrow> raised_by_row_or_callback pf rows self e)
      \<and> ((\<forall>row\<in>set rows. \<forall>c\<in>set row. snd c \<noteq> None) \<longrightarrow> callback_quiet self \<longrightarrow>
           (\<forall>n. \<exists>rs self'. csv_read_loop pf now rows n self = (None, rs, self') \<and> length rs = n)))
   \<and> (rows = [] \<longrightarrow> (\<forall>n. csv_read_loop pf now rows (Suc n) self = (Some IndexError, [], self)))"
proof (intro conjI impI allI)
  fix n e rs self'
  assume "rows \<noteq> []" and "csv_read_loop pf now rows n self = (Some e, rs, self')"
  then show "raised_by_row_or_callback pf rows self e"
    using csv_loop_in_bounds [of rows 0 pf now n self e rs self']
    by (simp add: csv_read_loop_def)
next
  fix n
  assume "rows \<noteq> []" and "\<forall>row\<in>set rows. \<forall>c\<in>set row. snd c \<noteq> None" and "callback_quiet self"
  then show "\<exists>rs self'. csv_read_loop pf now rows n self = (None, rs, self') \<and> length rs = n"
    using csv_loop_runs [of rows self 0 pf now n] by (simp add: csv_read_loop_def)
next
  fix n
  assume "rows = []"
  then show "csv_read_loop pf now rows (Suc n) self = (Some IndexError, [], self)"
    by (simp add: csv_read_loop_def py_index_def)
qed

theorem csv_read_loop_total_iff_rows_witness:
  "(\<exists>rs self'. csv_read_loop (\<lambda>s. None) (\<lambda>n. ''t'') [[(''temperature'', Some ''70'')]] 3 pump
          = (None, rs, self') \<and> length rs = 3)
   \<and> csv_read_loop (\<lambda>s. None) (\<lambda>n. ''t'') [[(''temperature'', None)]] 3 pump
          = (Some TypeError, [], pump)
   \<and> csv_read_loop (\<lambda>s. None) (\<lambda>n. ''t'') [] (Suc 0) pump = (Some IndexError, [], pump)"
proof -
  let ?pf = "\<lambda>s::string. None :: pyfloat option" and ?now = "\<lambda>n::nat. ''t''"
  have t: "csv_read_loop ?pf ?now [[(''temperature'', None)]] 3 pump = (Some TypeError, [], pump)"
    by (simp add: csv_read_loop_def py_index_def numeral_3_eq_3)
  have q: "callback_quiet pump"
    by (simp add: callback_quiet_def pump_def)
  have c: "\<forall>row\<in>set [[(''temperature'', Some ''70'')]]. \<forall>c\<in>set row. snd c \<noteq> None"
    by simp
  have r: "\<exists>rs self'. csv_read_loop ?pf ?now [[(''temperature'', Some ''70'')]] 3 pump
             = (None, rs, self') \<and> length rs = 3"
    using csv_read_loop_total_iff_rows [of "[[(''temperature'', Some ''70'')]]" ?pf ?now pump] q c
    by blast
  have b: "raised_by_row_or_callback ?pf [[(''temperature'', None)]] pump TypeError"
    using csv_read_loop_total_iff_rows [of "[[(''temperature'', None)]]" ?pf ?now pump] t
    by blast
  have e: "csv_read_loop ?pf ?now [] (Suc 0) pump = (Some IndexError, [], pump)"
    using csv_read_loop_total_iff_rows [of "[]" ?pf ?now pump] by blast
  from t r e show ?thesis by simp
qed

section \<open>Failure isolation in the polling loops\<close>

lemma api_read_loop_never_escapes:
  "fst (api_read_loop fetch now n self) = None"
proof (induction n arbitrary: self)
  case 0
  then show ?case by simp
next
  case (Suc n)
  obtain s1 lg res where o: "api_read_once self (now n) (fetch n) = (s1, lg, res)"
    by (cases "api_read_once self (now n) (fetch n)")
  obtain r lg' s2 where l: "api_read_loop fetch now n s1 = (r, lg', s2)"
    by (cases "api_read_loop fetch now n s1")
  from Suc.IH [of s1] l have "r = None" by simp
  with o l show ?case by (cases res) simp_all
qed

text \<open>
  Claim C6. A failure in one poll iteration is logged and the polling loop goes on to the
  next iteration, for every connector. The loops of the REST, Modbus and OPC-UA
  connectors do so (\<open>api_read_loop_never_escapes\<close>); the loop of \<open>CSVFileConnector\<close> has no
  \<open>try\<close>: with a one-row file and a callback that raises, three iterations are due,
  and the exception of the first one ends the thread with nothing logged, where the REST
  loop on the same callback runs all three and logs each failure twice.
\<close>

theorem csv_read_loop_callback_failure_ends_thread:
  "csv_read_loop (\<lambda>s. None) (\<lambda>n. ''t'') [[(''temperature'', Some ''70'')]] 3 failing_sink
     = (Some CallbackError, [],
        failing_sink\<lparr>last_reading := Some [(''equipment_id'', PStr ''PUMP001''),
            (''timestamp'', PStr ''t''), (''temperature'', PStr ''70'')]\<rparr>)
   \<and> fst (api_read_loop (\<lambda>n. JsonItem (DictData [(''temperature'', PStr ''70'')])) (\<lambda>n k. ''t'') 3
            failing_sink) = None
   \<and> length (fst (snd (api_read_loop (\<lambda>n. JsonItem (DictData [(''temperature'', PStr ''70'')]))
            (\<lambda>n k. ''t'') 3 failing_sink))) = 6"
  by (simp add: csv_read_loop_def py_index_def numeral_3_eq_3 failing_sink_def pump_def
        process_reading_def build_reading_def dict_update_def dict_set_def api_read_once_def)

section \<open>Properties of the registry\<close>

text \<open>
  The registry stays well formed under every call of \<open>stop_connector\<close> and of
  \<open>setup_connector\<close>, whatever the outcome: no equipment id is registered twice.
\<close>

lemma dict_get_mem:
  "distinct (map fst d) \<Longrightarrow> dict_get d k = Some v \<longleftrightarrow> (k, v) \<in> set d"
  by (simp add: dict_get_def)

lemma filter_key_distinct:
  "distinct (map fst d) \<Longrightarrow> map_of d k = Some v \<Longrightarrow> filter (\<lambda>p. fst p = k) d = [(k, v)]"
proof (induction d)
  case Nil
  then show ?case by simp
next
  case (Cons p d)
  show ?case
  proof (cases "fst p = k")
    case True
    with Cons.prems have "p = (k, v)" by (cases p) simp
    moreover from Cons.prems True have "k \<notin> fst ` set d" by auto
    then have "filter (\<lambda>p. fst p = k) d = []" by (auto simp: filter_empty_conv)
    ultimately show ?thesis by simp
  next
    case False
    with Cons show ?thesis by (cases p) auto
  qed
qed

lemma create_connector_class:
  "create_connector ev eid ct args = Inr c \<Longrightarrow>
   class_of_type ct = Some (cls c) \<and> c = new_connector eid (cls c)"
  by (auto simp: create_connector_def class_of_type_def new_connector_def split: if_splits)

lemma stop_connector_ok:
  assumes "wf_world w" and "dict_get (active_connectors w) eid = Some r"
      and "stop_connector ev eid w = (w1, Inr m)"
  shows "length (heap w1) = length (heap w) \<and> r < length (heap w)
       \<and> \<not> connected (heap w1 ! r) \<and> \<not> loop (heap w1 ! r)
       \<and> cls (heap w1 ! r) = cls (heap w ! r)
       \<and> thread_alive (heap w1 ! r) = (thread_alive (heap w ! r) \<and> \<not> thread_exits ev r)
       \<and> (\<forall>i. i \<noteq> r \<longrightarrow> heap w1 ! i = heap w ! i)
       \<and> active_connectors w1 = AList.delete eid (active_connectors w)
       \<and> wlog w1 = wlog w @ [(INFO, ''Disconnected'')]"
proof -
  from assms(1,2) have r: "r < length (heap w)"
    by (auto simp: wf_world_def dict_get_mem)
  from assms(2,3) r show ?thesis
    by (auto simp: stop_connector_def disconnect_def Let_def split: if_splits)
qed

lemma wf_delete:
  "wf_world w \<Longrightarrow> length (heap w1) = length (heap w) \<Longrightarrow>
   active_connectors w1 = AList.delete eid (active_connectors w) \<Longrightarrow> wf_world w1"
proof -
  assume w: "wf_world w" and l: "length (heap w1) = length (heap w)"
     and a: "active_connectors w1 = AList.delete eid (active_connectors w)"
  from w a have "distinct (map fst (active_connectors w1))"
    by (simp add: wf_world_def distinct_delete)
  moreover have "set (active_connectors w1) \<subseteq> set (active_connectors w)"
    by (auto simp: a AList.delete_eq)
  ultimately show "wf_world w1"
    using w l by (auto simp: wf_world_def)
qed

lemma wf_set:
  assumes "wf_world w1"
  shows "wf_world (w1\<lparr>heap := heap w1 @ [c],
                      active_connectors := dict_set eid (length (heap w1)) (active_connectors w1)\<rparr>)"
proof -
  have "r < Suc (length (heap w1))"
    if "(k, r) \<in> set (dict_set eid (length (heap w1)) (active_connectors w1))" for k r
  proof -
    from that have "map_of (dict_set eid (length (heap w1)) (active_connectors w1)) k = Some r"
      using assms by (simp add: wf_world_def dict_set_distinct)
    then have "(if k = eid then Some (length (heap w1)) else map_of (active_connectors w1) k) = Some r"
      by (simp add: dict_set_lookup)
    then show ?thesis
      using assms by (auto simp: wf_world_def split: if_splits dest!: map_of_SomeD)
  qed
  with assms show ?thesis
    by (auto simp: wf_world_def dict_set_distinct)
qed

lemma setup_connector_Inr:
  assumes "setup_connector ev cb config w = (w', Inr m)"
  shows "\<exists>w1 st0 c0 c2 c3.
           (if dict_get (active_connectors w) (cfg_equipment_id config) \<noteq> None
            then stop_connector ev (cfg_equipment_id config) w else (w, Inr [])) = (w1, Inr st0)
         \<and> create_connector ev (cfg_equipment_id config) (connector_type config)
              (connection_params config) = Inr c0
         \<and> connect ev (connection_params config) (c0\<lparr>callback := Some cb\<rparr>) = (c2, None)
         \<and> read_data_loop c2 = (c3, None)
         \<and> w' = w1\<lparr>heap := heap w1 @ [c3],
                    active_connectors :=
                      dict_set (cfg_equipment_id config) (length (heap w1)) (active_connectors w1)\<rparr>"
  using assms
  by (auto simp: setup_connector_def Let_def setup_failed_def
           split: prod.splits sum.splits option.splits)

lemma wf_mono:
  assumes "wf_world w" and "distinct (map fst (active_connectors w'))"
      and "set (active_connectors w') \<subseteq> set (active_connectors w)"
      and "length (heap w) \<le> length (heap w')"
  shows "wf_world w'"
  using assms by (fastforce simp: wf_world_def)

lemma stop_connector_wf:
  assumes "wf_world w"
  shows "wf_world (fst (stop_connector ev eid w))"
proof (cases "dict_get (active_connectors w) eid")
  case None
  with assms show ?thesis by (simp add: stop_connector_def)
next
  case (Some r)
  obtain c lg e where d: "disconnect ev r (heap w ! r) = (c, lg, e)"
    by (cases "disconnect ev r (heap w ! r)")
  show ?thesis
  proof (cases e)
    case None
    from assms have "distinct (map fst (AList.delete eid (active_connectors w)))"
      by (simp add: wf_world_def distinct_delete)
    moreover have "set (AList.delete eid (active_connectors w)) \<subseteq> set (active_connectors w)"
      by (auto simp: AList.delete_eq)
    ultimately show ?thesis
      using Some d None assms by (auto simp: stop_connector_def intro!: wf_mono [of w])
  next
    case (Some x)
    with \<open>dict_get (active_connectors w) eid = Some r\<close> d assms show ?thesis
      by (auto simp: stop_connector_def wf_world_def)
  qed
qed

lemma setup_connector_wf:
  assumes "wf_world w"
  shows "wf_world (fst (setup_connector ev cb config w))"
proof -
  obtain w1 st where ws:
    "(if dict_get (active_connectors w) (cfg_equipment_id config) \<noteq> None
      then stop_connector ev (cfg_equipment_id config) w else (w, Inr [])) = (w1, st)"
    by (cases "if dict_get (active_connectors w) (cfg_equipment_id config) \<noteq> None
      then stop_connector ev (cfg_equipment_id config) w else (w, Inr [])")
  have w1: "wf_world w1"
    using ws assms stop_connector_wf [OF assms, of ev "cfg_equipment_id config"]
    by (auto split: if_splits)
  have f: "wf_world (fst (setup_failed x))" if "wf_world x" for x
    using that by (simp add: setup_failed_def wf_world_def)
  have a: "wf_world (w1\<lparr>heap := heap w1 @ [c]\<rparr>)" for c
    using w1 by (auto simp: wf_world_def)
  show ?thesis
    using ws w1 f [OF w1] f [OF a] wf_set [OF w1]
    by (auto simp: setup_connector_def Let_def split: prod.splits sum.splits option.splits)
qed

lemma setup_connector_ok:
  assumes wf: "wf_world w" and s: "setup_connector ev cb config w = (w', Inr m)"
  shows "wf_world w'
       \<and> length (heap w') = Suc (length (heap w))
       \<and> dict_get (active_connectors w') (cfg_equipment_id config) = Some (length (heap w))
       \<and> class_of_type (connector_type config) = Some (cls (heap w' ! length (heap w)))
       \<and> connected (heap w' ! length (heap w)) \<and> loop (heap w' ! length (heap w))
       \<and> (\<forall>r0. dict_get (active_connectors w) (cfg_equipment_id config) = Some r0 \<longrightarrow>
              r0 < length (heap w) \<and> \<not> connected (heap w' ! r0) \<and> \<not> loop (heap w' ! r0)
              \<and> cls (heap w' ! r0) = cls (heap w ! r0))"
proof -
  let ?E = "cfg_equipment_id config"
  from setup_connector_Inr [OF s] obtain w1 st0 c0 c2 c3 where
        st: "(if dict_get (active_connectors w) ?E \<noteq> None
              then stop_connector ev ?E w else (w, Inr [])) = (w1, Inr st0)"
    and cr: "create_connector ev ?E (connector_type config) (connection_params config) = Inr c0"
    and co: "connect ev (connection_params config) (c0\<lparr>callback := Some cb\<rparr>) = (c2, None)"
    and rd: "read_data_loop c2 = (c3, None)"
    and w': "w' = w1\<lparr>heap := heap w1 @ [c3],
                      active_connectors := dict_set ?E (length (heap w1)) (active_connectors w1)\<rparr>"
    by blast
  from co rd have c3: "connected c3 \<and> loop c3 \<and> cls c3 = cls c0"
    by (auto simp: connect_def read_data_loop_def Let_def split: if_splits)
  from create_connector_class [OF cr] have ct: "class_of_type (connector_type config) = Some (cls c0)"
    by simp
  have old: "wf_world w1 \<and> length (heap w1) = length (heap w)
       \<and> (\<forall>r0. dict_get (active_connectors w) ?E = Some r0 \<longrightarrow>
              r0 < length (heap w) \<and> \<not> connected (heap w1 ! r0) \<and> \<not> loop (heap w1 ! r0)
              \<and> cls (heap w1 ! r0) = cls (heap w ! r0))"
  proof (cases "dict_get (active_connectors w) ?E")
    case None
    with st wf show ?thesis by simp
  next
    case (Some r)
    with st have "stop_connector ev ?E w = (w1, Inr st0)" by simp
    from stop_connector_ok [OF wf Some this] wf_delete [OF wf, of w1 ?E] Some
    show ?thesis by simp
  qed
  from old have len: "length (heap w1) = length (heap w)" by simp
  from old have wfw1: "wf_world w1" by simp
  have "wf_world w'" unfolding w' by (rule wf_set [OF wfw1])
  moreover from w' len have "length (heap w') = Suc (length (heap w))" by simp
  moreover from w' len have "dict_get (active_connectors w') ?E = Some (length (heap w))"
    by (simp add: dict_get_def dict_set_lookup)
  moreover from w' len have new: "heap w' ! length (heap w) = c3"
    by (simp add: nth_append)
  moreover have "heap w' ! r0 = heap w1 ! r0" if "r0 < length (heap w)" for r0
    using that w' len by (simp add: nth_append)
  ultimately show ?thesis
    using old c3 ct by auto
qed

lemma list_connectors_entry:
  assumes "wf_world w" and "dict_get (active_connectors w) E = Some r"
  shows "filter (\<lambda>e. fst e = E) (list_connectors w)
           = [(E, class_name (cls (heap w ! r)),
                  if connected (heap w ! r) then ''running'' else ''stopped'')]"
proof -
  have "(\<lambda>e. fst e = E) \<circ> (\<lambda>(eid, r). (eid, class_name (cls (heap w ! r)),
                        if connected (heap w ! r) then ''running'' else ''stopped''))
        = (\<lambda>p. fst p = E)"
    by (auto simp: fun_eq_iff)
  moreover from assms have "filter (\<lambda>p. fst p = E) (active_connectors w) = [(E, r)]"
    by (simp add: wf_world_def dict_get_def filter_key_distinct)
  ultimately show ?thesis
    by (simp add: list_connectors_def filter_map)
qed

lemma list_connectors_keys:
  "map fst (list_connectors w) = map fst (active_connectors w)"
  by (simp add: list_connectors_def comp_def split_beta)

lemma list_connectors_absent:
  assumes "dict_get (active_connectors w) E = None"
  shows "filter (\<lambda>e. fst e = E) (list_connectors w) = []"
proof -
  from assms have "E \<notin> fst ` set (active_connectors w)"
    by (simp add: dict_get_def map_of_eq_None_iff)
  then have "\<forall>p \<in> set (active_connectors w). fst p \<noteq> E" by force
  then show ?thesis
    by (auto simp: list_connectors_def filter_empty_conv)
qed

lemma setup_connector_registered:
  assumes wf: "wf_world w" and g: "dict_get (active_connectors w) (cfg_equipment_id b) = Some r0"
      and s: "setup_connector ev cb b w = (w', res)"
  shows "if has_client (heap w ! r0) \<and> \<not> close_ok ev r0
         then res = Inl (HTTPException 500) \<and> heap w' = heap w
              \<and> active_connectors w' = active_connectors w
         else \<not> connected (heap w' ! r0) \<and> \<not> loop (heap w' ! r0)
              \<and> cls (heap w' ! r0) = cls (heap w ! r0)
              \<and> (case res of
                    Inr m \<Rightarrow> True
                  | Inl e \<Rightarrow> e = HTTPException 500
                             \<and> dict_get (active_connectors w') (cfg_equipment_id b) = None)"
proof -
  let ?E = "cfg_equipment_id b"
  from wf g have r: "r0 < length (heap w)"
    by (auto simp: wf_world_def dict_get_mem)
  show ?thesis
  proof (cases "has_client (heap w ! r0) \<and> \<not> close_ok ev r0")
    case True
    then have "stop_connector ev ?E w
                 = (w\<lparr>wlog := wlog w @ [(ERROR, ''Error stopping connector'')]\<rparr>,
                    Inl (HTTPException 500))"
      using g by (simp add: stop_connector_def disconnect_def)
    with g s True show ?thesis
      by (auto simp: setup_connector_def setup_failed_def)
  next
    case False
    define c where "c = (heap w ! r0)\<lparr>connected := False, loop := False\<rparr>"
    define c' where "c' = (if thread_alive c then c\<lparr>thread_alive := \<not> thread_exits ev r0\<rparr> else c)"
    define w1 where "w1 = w\<lparr>heap := (heap w)[r0 := c'],
                             active_connectors := AList.delete ?E (active_connectors w),
                             wlog := wlog w @ [(INFO, ''Disconnected'')]\<rparr>"
    from False g have st: "stop_connector ev ?E w = (w1, Inr ''Connector stopped successfully'')"
      by (auto simp: stop_connector_def disconnect_def Let_def w1_def c'_def c_def)
    have o: "\<not> connected (heap w1 ! r0) \<and> \<not> loop (heap w1 ! r0)
             \<and> cls (heap w1 ! r0) = cls (heap w ! r0) \<and> r0 < length (heap w1)"
      using r by (simp add: w1_def c'_def c_def)
    have d: "dict_get (active_connectors w1) ?E = None"
      by (simp add: w1_def dict_get_def AList.delete_conv)
    have k: "heap (fst (setup_failed x)) = heap x
             \<and> active_connectors (fst (setup_failed x)) = active_connectors x
             \<and> snd (setup_failed x) = Inl (HTTPException 500)" for x
      by (simp add: setup_failed_def)
    from s g st have "setup_failed w1 = (w', res)
        \<or> (\<exists>x. setup_failed (w1\<lparr>heap := heap w1 @ [x]\<rparr>) = (w', res))
        \<or> (\<exists>x. w' = w1\<lparr>heap := heap w1 @ [x],
                  active_connectors := dict_set ?E (length (heap w1)) (active_connectors w1)\<rparr>
               \<and> res = Inr ''Connector set up successfully'')"
      by (auto simp: setup_connector_def Let_def split: prod.splits sum.splits option.splits)
    then consider "(w', res) = setup_failed w1"
      | x where "(w', res) = setup_failed (w1\<lparr>heap := heap w1 @ [x]\<rparr>)"
      | x where "w' = w1\<lparr>heap := heap w1 @ [x],
                  active_connectors := dict_set ?E (length (heap w1)) (active_connectors w1)\<rparr>"
          and "res = Inr ''Connector set up successfully''"
      by metis
    then show ?thesis
    proof cases
      case 1
      from 1 [symmetric] have "w' = fst (setup_failed w1)" and "res = snd (setup_failed w1)"
        by simp_all
      with False o d k [of w1] show ?thesis by auto
    next
      case 2
      from 2 [symmetric] have "w' = fst (setup_failed (w1\<lparr>heap := heap w1 @ [x]\<rparr>))"
        and "res = snd (setup_failed (w1\<lparr>heap := heap w1 @ [x]\<rparr>))"
        by simp_all
      with False o d k [of "w1\<lparr>heap := heap w1 @ [x]\<rparr>"] show ?thesis
        by (auto simp: nth_append)
    next
      case 3
      with False o show ?thesis by (auto simp: nth_append)
    qed
  qed
qed

text \<open>
  Claim C1. From a well-formed registry, let \<open>setup_connector\<close> succeed for an equipment
  \<open>E\<close> with a configuration \<open>a\<close>, and be called again for \<open>E\<close> with a configuration \<open>b\<close>.
  After the first call \<open>list_connectors\<close> shows exactly one entry for \<open>E\<close>, of the class of
  \<open>a\<close>; after the second no id is listed twice, whatever its outcome. The second call
  stops the registered connector first. If its \<open>disconnect()\<close> raises, the answer is a
  \<open>500\<close>, no object has been constructed and the old entry stays. Otherwise the old
  object has its \<open>connected\<close> and \<open>loop\<close> flags cleared and is no longer registered, it
  keeps its class, and then the new connector is built: on success the one entry of
  \<open>E\<close> is of the class of \<open>b\<close> and running, and on failure (an unknown type, a source
  that cannot be reached) the answer is a \<open>500\<close> and \<open>E\<close> has no entry at all.
\<close>

theorem setup_connector_replaces_entry:
  assumes "wf_world w"
      and "cfg_equipment_id a = E" and "cfg_equipment_id b = E"
      and "setup_connector ev cb a w = (w1, Inr m1)"
      and "setup_connector ev' cb' b w1 = (w2, res)"
  shows "\<exists>cA rA.
           class_of_type (connector_type a) = Some cA
         \<and> filter (\<lambda>e. fst e = E) (list_connectors w1) = [(E, class_name cA, ''running'')]
         \<and> dict_get (active_connectors w1) E = Some rA
         \<and> cls (heap w2 ! rA) = cA
         \<and> distinct (map fst (list_connectors w2))
         \<and> (if has_client (heap w1 ! rA) \<and> \<not> close_ok ev' rA
            then res = Inl (HTTPException 500) \<and> heap w2 = heap w1
               \<and> filter (\<lambda>e. fst e = E) (list_connectors w2) = [(E, class_name cA, ''running'')]
            else \<not> connected (heap w2 ! rA) \<and> \<not> loop (heap w2 ! rA)
               \<and> dict_get (active_connectors w2) E \<noteq> Some rA
               \<and> (case res of
                     Inr m2 \<Rightarrow>
                       (\<exists>cB. class_of_type (connector_type b) = Some cB
                           \<and> filter (\<lambda>e. fst e = E) (list_connectors w2)
                               = [(E, class_name cB, ''running'')])
                   | Inl e \<Rightarrow>
                       e = HTTPException 500
                     \<and> filter (\<lambda>e. fst e = E) (list_connectors w2) = []))"
proof -
  let ?rA = "length (heap w)"
  from setup_connector_ok [OF assms(1,4)] assms(2) have
        wf1: "wf_world w1" and l1: "length (heap w1) = Suc ?rA"
    and g1: "dict_get (active_connectors w1) E = Some ?rA"
    and c1: "class_of_type (connector_type a) = Some (cls (heap w1 ! ?rA))"
    and r1: "connected (heap w1 ! ?rA)"
    by simp_all
  from setup_connector_wf [OF wf1, of ev' cb' b] assms(5) have wf2: "wf_world w2" by simp
  then have d: "distinct (map fst (list_connectors w2))"
    by (simp add: list_connectors_keys wf_world_def)
  from list_connectors_entry [OF wf1 g1] r1
  have e1: "filter (\<lambda>e. fst e = E) (list_connectors w1)
              = [(E, class_name (cls (heap w1 ! ?rA)), ''running'')]"
    by simp
  from g1 assms(3) have g1': "dict_get (active_connectors w1) (cfg_equipment_id b) = Some ?rA"
    by simp
  note reg = setup_connector_registered [OF wf1 g1' assms(5)]
  have "cls (heap w2 ! ?rA) = cls (heap w1 ! ?rA)
      \<and> (if has_client (heap w1 ! ?rA) \<and> \<not> close_ok ev' ?rA
         then res = Inl (HTTPException 500) \<and> heap w2 = heap w1
            \<and> filter (\<lambda>e. fst e = E) (list_connectors w2)
                = [(E, class_name (cls (heap w1 ! ?rA)), ''running'')]
         else \<not> connected (heap w2 ! ?rA) \<and> \<not> loop (heap w2 ! ?rA)
            \<and> dict_get (active_connectors w2) E \<noteq> Some ?rA
            \<and> (case res of
                  Inr m2 \<Rightarrow>
                    (\<exists>cB. class_of_type (connector_type b) = Some cB
                        \<and> filter (\<lambda>e. fst e = E) (list_connectors w2)
                            = [(E, class_name cB, ''running'')])
                | Inl e \<Rightarrow>
                    e = HTTPException 500
                  \<and> filter (\<lambda>e. fst e = E) (list_connectors w2) = []))"
  proof (cases "has_client (heap w1 ! ?rA) \<and> \<not> close_ok ev' ?rA")
    case True
    with reg have k: "res = Inl (HTTPException 500)" "heap w2 = heap w1"
      "active_connectors w2 = active_connectors w1"
      by simp_all
    then have "list_connectors w2 = list_connectors w1"
      by (simp add: list_connectors_def)
    with True k e1 show ?thesis by simp
  next
    case False
    with reg have o: "\<not> connected (heap w2 ! ?rA)" "\<not> loop (heap w2 ! ?rA)"
      "cls (heap w2 ! ?rA) = cls (heap w1 ! ?rA)"
      and f: "case res of Inr m \<Rightarrow> True
              | Inl e \<Rightarrow> e = HTTPException 500
                    \<and> dict_get (active_connectors w2) (cfg_equipment_id b) = None"
      by simp_all
    show ?thesis
    proof (cases res)
      case (Inl e)
      with f assms(3) have "e = HTTPException 500"
        and n: "dict_get (active_connectors w2) E = None"
        by simp_all
      with list_connectors_absent [OF n] False o Inl show ?thesis by simp
    next
      case (Inr m2)
      with assms(5) have s2: "setup_connector ev' cb' b w1 = (w2, Inr m2)" by simp
      from setup_connector_ok [OF wf1 s2] assms(3) l1 have
            g2: "dict_get (active_connectors w2) E = Some (Suc ?rA)"
        and c2: "class_of_type (connector_type b) = Some (cls (heap w2 ! Suc ?rA))"
        and r2: "connected (heap w2 ! Suc ?rA)"
        by simp_all
      from list_connectors_entry [OF wf2 g2] r2
      have "filter (\<lambda>e. fst e = E) (list_connectors w2)
              = [(E, class_name (cls (heap w2 ! Suc ?rA)), ''running'')]"
        by simp
      with False o Inr g2 c2 show ?thesis by simp
    qed
  qed
  with c1 e1 g1 d show ?thesis by auto
qed

text \<open>
  The worlds that two calls for \<open>PUMP001\<close> build from the empty registry, first with a
  CSV file and then with an API (or first with a Modbus device).
\<close>

lemma setup_csv:
  "setup_connector reachable data_callback csv_config empty_world
     = (\<lparr>heap = [\<lparr>equipment_id = ''PUMP001'', connected = True, last_reading = None,
                   callback = Some data_callback, loop = True, cls = CSVFileConnector,
                   thread_alive = True, has_client = False\<rparr>],
          active_connectors = [(''PUMP001'', 0)], wlog = []\<rparr>,
        Inr ''Connector set up successfully'')"
  by (simp add: setup_connector_def csv_config_def empty_world_def reachable_def dict_get_def
        dict_set_def create_connector_def new_connector_def connect_def read_data_loop_def
        Let_def)

lemma setup_modbus:
  "setup_connector reachable data_callback modbus_config empty_world
     = (\<lparr>heap = [\<lparr>equipment_id = ''PUMP001'', connected = True, last_reading = None,
                   callback = Some data_callback, loop = True, cls = ModbusConnector,
                   thread_alive = True, has_client = True\<rparr>],
          active_connectors = [(''PUMP001'', 0)], wlog = []\<rparr>,
        Inr ''Connector set up successfully'')"
  by (simp add: setup_connector_def modbus_config_def empty_world_def reachable_def dict_get_def
        dict_set_def create_connector_def new_connector_def connect_def read_data_loop_def
        Let_def)

lemma setup_api_after_csv:
  "setup_connector reachable data_callback api_config
      \<lparr>heap = [\<lparr>equipment_id = ''PUMP001'', connected = True, last_reading = None,
                   callback = Some data_callback, loop = True, cls = CSVFileConnector,
                   thread_alive = True, has_client = False\<rparr>],
          active_connectors = [(''PUMP001'', 0)], wlog = []\<rparr>
     = (\<lparr>heap = [\<lparr>equipment_id = ''PUMP001'', connected = False, last_reading = None,
                   callback = Some data_callback, loop = False, cls = CSVFileConnector,
                   thread_alive = False, has_client = False\<rparr>,
                 \<lparr>equipment_id = ''PUMP001'', connected = True, last_reading = None,
                   callback = Some data_callback, loop = True, cls = APIConnector,
                   thread_alive = True, has_client = False\<rparr>],
          active_connectors = [(''PUMP001'', 1)], wlog = [(INFO, ''Disconnected'')]\<rparr>,
        Inr ''Connector set up successfully'')"
  by (simp add: setup_connector_def api_config_def reachable_def dict_get_def
        dict_set_def create_connector_def new_connector_def connect_def read_data_loop_def
        stop_connector_def disconnect_def Let_def)

lemma setup_api_offline_fails:
  "snd (setup_connector offline data_callback api_config
      \<lparr>heap = [\<lparr>equipment_id = ''PUMP001'', connected = True, last_reading = None,
                   callback = Some data_callback, loop = True, cls = CSVFileConnector,
                   thread_alive = True, has_client = False\<rparr>],
          active_connectors = [(''PUMP001'', 0)], wlog = []\<rparr>) = Inl (HTTPException 500)"
  by (simp add: setup_connector_def api_config_def offline_def reachable_def dict_get_def
        dict_set_def create_connector_def new_connector_def connect_def read_data_loop_def
        stop_connector_def disconnect_def setup_failed_def Let_def)

lemma setup_api_jammed_fails:
  "snd (setup_connector jammed data_callback api_config
      \<lparr>heap = [\<lparr>equipment_id = ''PUMP001'', connected = True, last_reading = None,
                   callback = Some data_callback, loop = True, cls = ModbusConnector,
                   thread_alive = True, has_client = True\<rparr>],
          active_connectors = [(''PUMP001'', 0)], wlog = []\<rparr>) = Inl (HTTPException 500)"
  by (simp add: setup_connector_def api_config_def jammed_def reachable_def dict_get_def
        dict_set_def create_connector_def new_connector_def connect_def read_data_loop_def
        stop_connector_def disconnect_def setup_failed_def Let_def)

text \<open>
  A CSV connector for \<open>PUMP001\<close> replaced by an API connector: the list shows the API
  connector alone, and the CSV connector, object 0 of the heap, is disconnected. When the
  API cannot be reached the CSV connector is disconnected all the same and \<open>PUMP001\<close> has
  no entry. A Modbus connector whose client cannot be closed stays registered.
\<close>

theorem setup_connector_replaces_entry_witness:
  "(\<exists>w1 w2. setup_connector reachable data_callback csv_config empty_world
                = (w1, Inr ''Connector set up successfully'')
      \<and> setup_connector reachable data_callback api_config w1
                = (w2, Inr ''Connector set up successfully'')
      \<and> filter (\<lambda>e. fst e = ''PUMP001'') (list_connectors w1)
                = [(''PUMP001'', ''CSVFileConnector'', ''running'')]
      \<and> filter (\<lambda>e. fst e = ''PUMP001'') (list_connectors w2)
                = [(''PUMP001'', ''APIConnector'', ''running'')]
      \<and> cls (heap w2 ! 0) = CSVFileConnector
      \<and> \<not> connected (heap w2 ! 0) \<and> \<not> loop (heap w2 ! 0))
   \<and> (\<exists>w1 w2. setup_connector reachable data_callback csv_config empty_world
                = (w1, Inr ''Connector set up successfully'')
      \<and> setup_connector offline data_callback api_config w1 = (w2, Inl (HTTPException 500))
      \<and> filter (\<lambda>e. fst e = ''PUMP001'') (list_connectors w2) = []
      \<and> cls (heap w2 ! 0) = CSVFileConnector
      \<and> \<not> connected (heap w2 ! 0) \<and> \<not> loop (heap w2 ! 0))
   \<and> (\<exists>w1 w2. setup_connector reachable data_callback modbus_config empty_world
                = (w1, Inr ''Connector set up successfully'')
      \<and> setup_connector jammed data_callback api_config w1 = (w2, Inl (HTTPException 500))
      \<and> filter (\<lambda>e. fst e = ''PUMP001'') (list_connectors w2)
                = [(''PUMP001'', ''ModbusConnector'', ''running'')]
      \<and> heap w2 = heap w1)"
proof -
  let ?C = "\<lparr>heap = [\<lparr>equipment_id = ''PUMP001'', connected = True, last_reading = None,
                   callback = Some data_callback, loop = True, cls = CSVFileConnector,
                   thread_alive = True, has_client = False\<rparr>],
             active_connectors = [(''PUMP001'', 0)], wlog = []\<rparr>"
  let ?M = "\<lparr>heap = [\<lparr>equipment_id = ''PUMP001'', connected = True, last_reading = None,
                   callback = Some data_callback, loop = True, cls = ModbusConnector,
                   thread_alive = True, has_client = True\<rparr>],
             active_connectors = [(''PUMP001'', 0)], wlog = []\<rparr>"
  have w: "wf_world empty_world" by (simp add: wf_world_def empty_world_def)
  have a: "cfg_equipment_id csv_config = ''PUMP001''" by (simp add: csv_config_def)
  have b: "cfg_equipment_id api_config = ''PUMP001''" by (simp add: api_config_def)
  have m: "cfg_equipment_id modbus_config = ''PUMP001''" by (simp add: modbus_config_def)
  have ta: "class_of_type (connector_type csv_config) = Some CSVFileConnector"
    and tb: "class_of_type (connector_type api_config) = Some APIConnector"
    and tm: "class_of_type (connector_type modbus_config) = Some ModbusConnector"
    by (simp_all add: class_of_type_def csv_config_def api_config_def modbus_config_def)
  have gc: "dict_get (active_connectors ?C) ''PUMP001'' = Some 0"
    and gm: "dict_get (active_connectors ?M) ''PUMP001'' = Some 0"
    by (simp_all add: dict_get_def)
  have j: "\<not> close_ok jammed 0" by (simp add: jammed_def reachable_def)
  let ?A = "\<lparr>heap = [\<lparr>equipment_id = ''PUMP001'', connected = False, last_reading = None,
                   callback = Some data_callback, loop = False, cls = CSVFileConnector,
                   thread_alive = False, has_client = False\<rparr>,
                 \<lparr>equipment_id = ''PUMP001'', connected = True, last_reading = None,
                   callback = Some data_callback, loop = True, cls = APIConnector,
                   thread_alive = True, has_client = False\<rparr>],
             active_connectors = [(''PUMP001'', 1)], wlog = [(INFO, ''Disconnected'')]\<rparr>"
  from setup_connector_replaces_entry [OF w a b setup_csv setup_api_after_csv] ta tb gc
  have 1: "filter (\<lambda>e. fst e = ''PUMP001'') (list_connectors ?C)
                = [(''PUMP001'', ''CSVFileConnector'', ''running'')]
      \<and> filter (\<lambda>e. fst e = ''PUMP001'') (list_connectors ?A)
                = [(''PUMP001'', ''APIConnector'', ''running'')]
      \<and> cls (heap ?A ! 0) = CSVFileConnector
      \<and> \<not> connected (heap ?A ! 0) \<and> \<not> loop (heap ?A ! 0)"
    by auto
  obtain w2 where s2: "setup_connector offline data_callback api_config ?C
                         = (w2, Inl (HTTPException 500))"
    using setup_api_offline_fails
    by (cases "setup_connector offline data_callback api_config ?C") auto
  from setup_connector_replaces_entry [OF w a b setup_csv s2] ta gc
  have 2: "filter (\<lambda>e. fst e = ''PUMP001'') (list_connectors w2) = []
      \<and> cls (heap w2 ! 0) = CSVFileConnector
      \<and> \<not> connected (heap w2 ! 0) \<and> \<not> loop (heap w2 ! 0)"
    by auto
  obtain w3 where s3: "setup_connector jammed data_callback api_config ?M
                         = (w3, Inl (HTTPException 500))"
    using setup_api_jammed_fails
    by (cases "setup_connector jammed data_callback api_config ?M") auto
  from setup_connector_replaces_entry [OF w m b setup_modbus s3] tm gm j
  have 3: "filter (\<lambda>e. fst e = ''PUMP001'') (list_connectors w3)
                = [(''PUMP001'', ''ModbusConnector'', ''running'')]
      \<and> heap w3 = heap ?M"
    by auto
  from 1 2 3 s2 s3 show ?thesis
    using setup_csv setup_modbus setup_api_after_csv by blast
qed

section \<open>Stopping a connector\<close>

text \<open>
  Claim C7, in the form the code has. For a registered equipment id, \<open>stop_connector\<close>
  returns. When \<open>disconnect()\<close> does not raise, that is unless closing the client of a
  Modbus or OPC-UA connector raises, both flags are cleared, the polling thread is
  joined for at most two seconds, and the entry is removed whether or not the thread has
  ended by then: a thread that has not is left alive, and the only line logged is the
  \<open>INFO\<close> line of \<open>disconnect()\<close>, in both cases. When closing the client raises, the
  error is logged, the answer is a \<open>500\<close> and the entry stays.
\<close>

theorem stop_connector_joins_silently:
  assumes "wf_world w" and "dict_get (active_connectors w) eid = Some r"
  shows "(has_client (heap w ! r) \<and> \<not> close_ok ev r \<longrightarrow>
            (\<exists>w'. stop_connector ev eid w = (w', Inl (HTTPException 500))
                 \<and> dict_get (active_connectors w') eid = Some r
                 \<and> heap w' = heap w
                 \<and> wlog w' = wlog w @ [(ERROR, ''Error stopping connector'')]))
       \<and> (\<not> (has_client (heap w ! r) \<and> \<not> close_ok ev r) \<longrightarrow>
            (\<exists>w'. stop_connector ev eid w = (w', Inr ''Connector stopped successfully'')
                 \<and> dict_get (active_connectors w') eid = None
                 \<and> \<not> connected (heap w' ! r) \<and> \<not> loop (heap w' ! r)
                 \<and> thread_alive (heap w' ! r)
                     = (thread_alive (heap w ! r) \<and> \<not> thread_exits ev r)
                 \<and> wlog w' = wlog w @ [(INFO, ''Disconnected'')]))"
proof -
  from assms have r: "r < length (heap w)"
    by (auto simp: wf_world_def dict_get_mem)
  have d: "dict_get (AList.delete eid (active_connectors w)) eid = None"
    by (simp add: dict_get_def AList.delete_conv)
  from assms(2) r d show ?thesis
    by (auto simp: stop_connector_def disconnect_def Let_def)
qed

text \<open>
  Claim C7, as stated, fails at the warning: a CSV connector whose polling thread does
  not end within the join is stopped with the same single \<open>INFO\<close> line; nothing reports
  that the thread is still alive.
\<close>

theorem stuck_thread_is_not_reported:
  "stop_connector stuck ''PUMP001''
      (fst (setup_connector stuck data_callback csv_config empty_world))
     = (\<lparr>heap = [\<lparr>equipment_id = ''PUMP001'', connected = False, last_reading = None,
                   callback = Some data_callback, loop = False, cls = CSVFileConnector,
                   thread_alive = True, has_client = False\<rparr>],
          active_connectors = [], wlog = [(INFO, ''Disconnected'')]\<rparr>,
        Inr ''Connector stopped successfully'')"
  by (simp add: setup_connector_def csv_config_def empty_world_def reachable_def stuck_def
        dict_get_def dict_set_def create_connector_def new_connector_def connect_def
        read_data_loop_def stop_connector_def disconnect_def Let_def)

text \<open>
  Both cases at \<open>PUMP001\<close>: a CSV connector whose thread ends in time, and a Modbus
  connector whose client cannot be closed.
\<close>

theorem stop_connector_joins_silently_witness:
  "(\<exists>w'. stop_connector reachable ''PUMP001''
              (fst (setup_connector reachable data_callback csv_config empty_world))
            = (w', Inr ''Connector stopped successfully'')
         \<and> dict_get (active_connectors w') ''PUMP001'' = None
         \<and> \<not> connected (heap w' ! 0) \<and> \<not> loop (heap w' ! 0) \<and> \<not> thread_alive (heap w' ! 0)
         \<and> wlog w' = [(INFO, ''Disconnected'')])
   \<and> (\<exists>w'. stop_connector jammed ''PUMP001''
              (fst (setup_connector reachable data_callback modbus_config empty_world))
            = (w', Inl (HTTPException 500))
         \<and> dict_get (active_connectors w') ''PUMP001'' = Some 0
         \<and> wlog w' = [(ERROR, ''Error stopping connector'')])"
proof -
  let ?c = "fst (setup_connector reachable data_callback csv_config empty_world)"
  let ?m = "fst (setup_connector reachable data_callback modbus_config empty_world)"
  have wc: "wf_world ?c" and gc: "dict_get (active_connectors ?c) ''PUMP001'' = Some 0"
    by (simp_all add: setup_csv wf_world_def dict_get_def)
  have wm: "wf_world ?m" and gm: "dict_get (active_connectors ?m) ''PUMP001'' = Some 0"
    by (simp_all add: setup_modbus wf_world_def dict_get_def)
  have c: "\<not> has_client (heap ?c ! 0) \<and> thread_alive (heap ?c ! 0) \<and> wlog ?c = []"
    by (simp add: setup_csv)
  have m: "has_client (heap ?m ! 0) \<and> wlog ?m = []"
    by (simp add: setup_modbus)
  have e: "thread_exits reachable 0 \<and> \<not> close_ok jammed 0"
    by (simp add: jammed_def reachable_def)
  from stop_connector_joins_silently [OF wc gc, of reachable] c e
  have 1: "\<exists>w'. stop_connector reachable ''PUMP001'' ?c
                  = (w', Inr ''Connector stopped successfully'')
         \<and> dict_get (active_connectors w') ''PUMP001'' = None
         \<and> \<not> connected (heap w' ! 0) \<and> \<not> loop (heap w' ! 0) \<and> \<not> thread_alive (heap w' ! 0)
         \<and> wlog w' = [(INFO, ''Disconnected'')]"
    by simp
  from stop_connector_joins_silently [OF wm gm, of jammed] m e
  have 2: "\<exists>w'. stop_connector jammed ''PUMP001'' ?m = (w', Inl (HTTPException 500))
         \<and> dict_get (active_connectors w') ''PUMP001'' = Some 0
         \<and> wlog w' = [(ERROR, ''Error stopping connector'')]"
    by simp blast
  from 1 2 show ?thesis by (rule conjI)
qed

section \<open>Properties of the rolling statistics\<close>

















end
